theory Spec2Isabelle
  imports Main "HOL-Library.Sublist"
begin

section \<open>Data model of the RBAC hook (hooks/useRBAC)\<close>

text \<open>
  The three row types of the hook. TypeScript lets every interface reuse the field names
  \<open>id\<close>, \<open>name\<close>, \<open>description\<close> and \<open>created_at\<close>; record fields are
  global constants here, so each field carries a prefix for its interface. The foreign keys
  \<open>role_id\<close> and \<open>permission_id\<close> keep their names.
\<close>

record Permission =
  p_id :: string
  p_name :: string
  p_description :: "string option"
  p_created_at :: string

record Role =
  r_id :: string
  r_name :: string
  r_description :: "string option"
  r_created_at :: string

record RolePermission =
  rp_id :: string
  role_id :: string
  permission_id :: string
  rp_created_at :: string

subsection \<open>The environment of the hook\<close>

text \<open>The error object of the store's client; the code reads only its \<open>message\<close>.\<close>

record PostgrestError =
  err_message :: string

text \<open>
  The argument of \<open>toast({title, description, variant})\<close>. A call that gives no
  \<open>variant\<close> is \<open>Default\<close>.
\<close>

datatype variant = Default | Destructive

record toast =
  t_title :: string
  t_description :: string
  t_variant :: variant

text \<open>
  One remote call, as the hook issues it through the store's client: the table, the
  operation and the values the call carries.
\<close>

datatype request =
    Select_permissions
  | Select_roles
  | Select_role_permissions
  | Insert_permission string "string option"
  | Update_permission string string "string option"
  | Delete_permission string
  | Insert_role string "string option"
  | Update_role string string "string option"
  | Delete_role string
  | Insert_role_permission string string
  | Delete_role_permission string string

text \<open>
  The remote store is not part of the program: it is a parameter. A value of
  \<open>supabase\<close> says how the store answers each call at the moment the call is awaited.
  A call that ends in \<open>.select().single()\<close> answers with the row or with an error
  (\<open>Inl\<close> the error); a \<open>delete\<close> answers with an error or with none; a
  \<open>select('*')\<close> answers with the rows or with an error.
\<close>

record supabase =
  select_permissions :: "PostgrestError + Permission list"
  select_roles :: "PostgrestError + Role list"
  select_role_permissions :: "PostgrestError + RolePermission list"
  insert_permission :: "string \<Rightarrow> string option \<Rightarrow> PostgrestError + Permission"
  update_permission :: "string \<Rightarrow> string \<Rightarrow> string option \<Rightarrow> PostgrestError + Permission"
  delete_permission :: "string \<Rightarrow> PostgrestError option"
  insert_role :: "string \<Rightarrow> string option \<Rightarrow> PostgrestError + Role"
  update_role :: "string \<Rightarrow> string \<Rightarrow> string option \<Rightarrow> PostgrestError + Role"
  delete_role :: "string \<Rightarrow> PostgrestError option"
  insert_role_permission :: "string \<Rightarrow> string \<Rightarrow> PostgrestError + RolePermission"
  delete_role_permission :: "string \<Rightarrow> string \<Rightarrow> PostgrestError option"

text \<open>
  The two string functions of the JavaScript runtime that the code calls and whose result
  depends on the runtime's locale data: \<open>String.prototype.localeCompare\<close> and
  \<open>String.prototype.toLowerCase\<close>. They are parameters as well.
\<close>

record runtime =
  localeCompare :: "string \<Rightarrow> string \<Rightarrow> int"
  toLowerCase :: "string \<Rightarrow> string"

text \<open>
  The state of the hook: the three \<open>useState\<close> collections and the \<open>loading\<close>
  flag, together with what the hook has sent out so far, oldest first: the toasts it has
  shown and the remote calls it has issued.
\<close>

record RBAC =
  permissions :: "Permission list"
  roles :: "Role list"
  rolePermissions :: "RolePermission list"
  loading :: bool
  toasts :: "toast list"
  requests :: "request list"

text \<open>The local mirror: the three collections, without the flag and the outputs.\<close>

definition mirror :: "RBAC \<Rightarrow> Permission list \<times> Role list \<times> RolePermission list" where
  "mirror w = (permissions w, roles w, rolePermissions w)"

text \<open>
  The data in the object \<open>useRBAC\<close> returns to the component that calls it: the three
  collections and \<open>loading\<close>. The rest of that object is the operations. It has no field
  for an error.
\<close>

definition exposed ::
  "RBAC \<Rightarrow> Permission list \<times> Role list \<times> RolePermission list \<times> bool" where
  "exposed w = (permissions w, roles w, rolePermissions w, loading w)"

text \<open>The state of \<open>useRBAC\<close> at its first render.\<close>

definition initial :: RBAC where
  "initial = \<lparr>permissions = [], roles = [], rolePermissions = [], loading = True,
     toasts = [], requests = []\<rparr>"

subsection \<open>JavaScript library functions\<close>

text \<open>
  \<open>Array.prototype.sort(compareFn)\<close>: a stable sort; an element goes before the
  first element it does not compare greater than.
\<close>

fun insort_js :: "('a \<Rightarrow> 'a \<Rightarrow> int) \<Rightarrow> 'a \<Rightarrow> 'a list \<Rightarrow> 'a list" where
  "insort_js cmp x [] = [x]"
| "insort_js cmp x (y # ys) = (if cmp x y \<le> 0 then x # y # ys else y # insort_js cmp x ys)"

definition sort_js :: "('a \<Rightarrow> 'a \<Rightarrow> int) \<Rightarrow> 'a list \<Rightarrow> 'a list" where
  "sort_js cmp xs = foldr (insort_js cmp) xs []"

text \<open>\<open>String.prototype.includes\<close>: the argument occurs as a contiguous part.\<close>

fun includes_js :: "string \<Rightarrow> string \<Rightarrow> bool" where
  "includes_js [] sub = (sub = [])"
| "includes_js (c # cs) sub = (prefix sub (c # cs) \<or> includes_js cs sub)"

text \<open>
  A template placeholder \<open>${x?.name}\<close>: the name, or the text \<open>undefined\<close> when
  \<open>find\<close> found nothing.
\<close>

definition name_text :: "string option \<Rightarrow> string" where
  "name_text n = (case n of None \<Rightarrow> ''undefined'' | Some s \<Rightarrow> s)"

definition quoted :: "string \<Rightarrow> string" where
  "quoted s = [CHR 0x22] @ s @ [CHR 0x22]"

definition show_toast :: "toast \<Rightarrow> RBAC \<Rightarrow> RBAC" where
  "show_toast t w = w\<lparr>toasts := toasts w @ [t]\<rparr>"

definition issue :: "request \<Rightarrow> RBAC \<Rightarrow> RBAC" where
  "issue q w = w\<lparr>requests := requests w @ [q]\<rparr>"

section \<open>The operations of the hook\<close>

subsection \<open>fetchData\<close>

text \<open>
  The body of the \<open>try\<close> block after the three reads have come back: the first error,
  in the order permissions, roles, role_permissions, is thrown; otherwise the three
  collections are replaced. A read without an error carries its rows, so the fallback
  \<open>data || []\<close> of the source never applies.
\<close>

definition fetch_body ::
  "supabase \<Rightarrow> RBAC \<Rightarrow> PostgrestError + RBAC" where
  "fetch_body sb w =
     (case select_permissions sb of
        Inl e \<Rightarrow> Inl e
      | Inr ps \<Rightarrow>
          (case select_roles sb of
             Inl e \<Rightarrow> Inl e
           | Inr rs \<Rightarrow>
               (case select_role_permissions sb of
                  Inl e \<Rightarrow> Inl e
                | Inr rps \<Rightarrow>
                    Inr (w\<lparr>permissions := ps, roles := rs, rolePermissions := rps\<rparr>))))"

definition fetchData :: "'u option \<Rightarrow> supabase \<Rightarrow> RBAC \<Rightarrow> unit \<times> RBAC" where
  "fetchData user sb w =
     (case user of
        None \<Rightarrow> ((), w)
      | Some u \<Rightarrow>
          (let w1 = w\<lparr>loading := True\<rparr>;
               w2 = issue Select_role_permissions
                      (issue Select_roles (issue Select_permissions w1));
               w3 = (case fetch_body sb w2 of
                       Inr w' \<Rightarrow> w'
                     | Inl e \<Rightarrow>
                         show_toast \<lparr>t_title = ''Error loading data'',
                           t_description =
                             ''Could not load roles and permissions. Please try again.'',
                           t_variant = Destructive\<rparr> w2)
           in ((), w3\<lparr>loading := False\<rparr>)))"

text \<open>
  \<open>fetchData\<close> returns without a read when no user is signed in. Otherwise it sets
  \<open>loading\<close>, issues the three reads together, runs the body, shows one toast when
  the body has thrown, and clears \<open>loading\<close> in the \<open>finally\<close> block. The
  \<open>catch\<close> block does not throw again, so the promise resolves on both paths, and
  with no value (\<open>Promise<void>\<close>): the first component of the result is that empty
  value, the second the new state.
\<close>

subsection \<open>Permission CRUD\<close>

text \<open>
  Every mutating operation awaits one remote call and branches on its error. It returns
  the row or \<open>null\<close> (\<open>Some\<close> the row or \<open>None\<close>), or \<open>true\<close> or \<open>false\<close>,
  together with the new state. The lookups by \<open>find\<close> that only feed a toast read the
  collections as they are when the call starts.
\<close>

definition createPermission ::
  "runtime \<Rightarrow> supabase \<Rightarrow> string \<Rightarrow> string option \<Rightarrow> RBAC \<Rightarrow> Permission option \<times> RBAC" where
  "createPermission rt sb name description w =
     (let w1 = issue (Insert_permission name description) w in
      case insert_permission sb name description of
        Inl err \<Rightarrow>
          (None, show_toast \<lparr>t_title = ''Error creating permission'',
             t_description = err_message err, t_variant = Destructive\<rparr> w1)
      | Inr row \<Rightarrow>
          (Some row,
           show_toast \<lparr>t_title = ''Permission created'',
             t_description = quoted name @ '' has been created.'', t_variant = Default\<rparr>
             (w1\<lparr>permissions :=
                sort_js (\<lambda>a b. localeCompare rt (p_name a) (p_name b))
                  (permissions w1 @ [row])\<rparr>)))"

definition updatePermission ::
  "runtime \<Rightarrow> supabase \<Rightarrow> string \<Rightarrow> string \<Rightarrow> string option \<Rightarrow> RBAC \<Rightarrow> Permission option \<times> RBAC" where
  "updatePermission rt sb id' name description w =
     (let w1 = issue (Update_permission id' name description) w in
      case update_permission sb id' name description of
        Inl err \<Rightarrow>
          (None, show_toast \<lparr>t_title = ''Error updating permission'',
             t_description = err_message err, t_variant = Destructive\<rparr> w1)
      | Inr row \<Rightarrow>
          (Some row,
           show_toast \<lparr>t_title = ''Permission updated'',
             t_description = quoted name @ '' has been updated.'', t_variant = Default\<rparr>
             (w1\<lparr>permissions :=
                sort_js (\<lambda>a b. localeCompare rt (p_name a) (p_name b))
                  (map (\<lambda>p. if p_id p = id' then row else p) (permissions w1))\<rparr>)))"

definition deletePermission :: "supabase \<Rightarrow> string \<Rightarrow> RBAC \<Rightarrow> bool \<times> RBAC" where
  "deletePermission sb id' w =
     (let permission = find (\<lambda>p. p_id p = id') (permissions w);
          w1 = issue (Delete_permission id') w in
      case delete_permission sb id' of
        Some err \<Rightarrow>
          (False, show_toast \<lparr>t_title = ''Error deleting permission'',
             t_description = err_message err, t_variant = Destructive\<rparr> w1)
      | None \<Rightarrow>
          (True,
           show_toast \<lparr>t_title = ''Permission deleted'',
             t_description =
               quoted (name_text (map_option p_name permission)) @ '' has been deleted.'',
             t_variant = Default\<rparr>
             (w1\<lparr>permissions := filter (\<lambda>p. p_id p \<noteq> id') (permissions w1),
                 rolePermissions :=
                   filter (\<lambda>rp. permission_id rp \<noteq> id') (rolePermissions w1)\<rparr>)))"

subsection \<open>Role CRUD\<close>

definition createRole ::
  "runtime \<Rightarrow> supabase \<Rightarrow> string \<Rightarrow> string option \<Rightarrow> RBAC \<Rightarrow> Role option \<times> RBAC" where
  "createRole rt sb name description w =
     (let w1 = issue (Insert_role name description) w in
      case insert_role sb name description of
        Inl err \<Rightarrow>
          (None, show_toast \<lparr>t_title = ''Error creating role'',
             t_description = err_message err, t_variant = Destructive\<rparr> w1)
      | Inr row \<Rightarrow>
          (Some row,
           show_toast \<lparr>t_title = ''Role created'',
             t_description = quoted name @ '' has been created.'', t_variant = Default\<rparr>
             (w1\<lparr>roles :=
                sort_js (\<lambda>a b. localeCompare rt (r_name a) (r_name b))
                  (roles w1 @ [row])\<rparr>)))"

definition updateRole ::
  "runtime \<Rightarrow> supabase \<Rightarrow> string \<Rightarrow> string \<Rightarrow> string option \<Rightarrow> RBAC \<Rightarrow> Role option \<times> RBAC" where
  "updateRole rt sb id' name description w =
     (let w1 = issue (Update_role id' name description) w in
      case update_role sb id' name description of
        Inl err \<Rightarrow>
          (None, show_toast \<lparr>t_title = ''Error updating role'',
             t_description = err_message err, t_variant = Destructive\<rparr> w1)
      | Inr row \<Rightarrow>
          (Some row,
           show_toast \<lparr>t_title = ''Role updated'',
             t_description = quoted name @ '' has been updated.'', t_variant = Default\<rparr>
             (w1\<lparr>roles :=
                sort_js (\<lambda>a b. localeCompare rt (r_name a) (r_name b))
                  (map (\<lambda>r. if r_id r = id' then row else r) (roles w1))\<rparr>)))"

definition deleteRole :: "supabase \<Rightarrow> string \<Rightarrow> RBAC \<Rightarrow> bool \<times> RBAC" where
  "deleteRole sb id' w =
     (let role = find (\<lambda>r. r_id r = id') (roles w);
          w1 = issue (Delete_role id') w in
      case delete_role sb id' of
        Some err \<Rightarrow>
          (False, show_toast \<lparr>t_title = ''Error deleting role'',
             t_description = err_message err, t_variant = Destructive\<rparr> w1)
      | None \<Rightarrow>
          (True,
           show_toast \<lparr>t_title = ''Role deleted'',
             t_description =
               quoted (name_text (map_option r_name role)) @ '' has been deleted.'',
             t_variant = Default\<rparr>
             (w1\<lparr>roles := filter (\<lambda>r. r_id r \<noteq> id') (roles w1),
                 rolePermissions :=
                   filter (\<lambda>rp. role_id rp \<noteq> id') (rolePermissions w1)\<rparr>)))"

subsection \<open>Role-Permission linking\<close>

definition assignPermissionToRole ::
  "supabase \<Rightarrow> string \<Rightarrow> string \<Rightarrow> RBAC \<Rightarrow> RolePermission option \<times> RBAC" where
  "assignPermissionToRole sb roleId permissionId w =
     (let w1 = issue (Insert_role_permission roleId permissionId) w in
      case insert_role_permission sb roleId permissionId of
        Inl err \<Rightarrow>
          (None,
           if includes_js (err_message err) ''duplicate''
           then show_toast \<lparr>t_title = ''Already assigned'',
                  t_description = ''This permission is already assigned to the role.'',
                  t_variant = Destructive\<rparr> w1
           else show_toast \<lparr>t_title = ''Error assigning permission'',
                  t_description = err_message err, t_variant = Destructive\<rparr> w1)
      | Inr row \<Rightarrow>
          (let w2 = w1\<lparr>rolePermissions := rolePermissions w1 @ [row]\<rparr>;
               role = find (\<lambda>r. r_id r = roleId) (roles w);
               permission = find (\<lambda>p. p_id p = permissionId) (permissions w)
           in (Some row,
               show_toast \<lparr>t_title = ''Permission assigned'',
                 t_description =
                   quoted (name_text (map_option p_name permission)) @ '' assigned to ''
                     @ quoted (name_text (map_option r_name role)) @ ''.'',
                 t_variant = Default\<rparr> w2)))"

definition removePermissionFromRole ::
  "supabase \<Rightarrow> string \<Rightarrow> string \<Rightarrow> RBAC \<Rightarrow> bool \<times> RBAC" where
  "removePermissionFromRole sb roleId permissionId w =
     (let w1 = issue (Delete_role_permission roleId permissionId) w in
      case delete_role_permission sb roleId permissionId of
        Some err \<Rightarrow>
          (False, show_toast \<lparr>t_title = ''Error removing permission'',
             t_description = err_message err, t_variant = Destructive\<rparr> w1)
      | None \<Rightarrow>
          (let w2 = w1\<lparr>rolePermissions :=
                      filter (\<lambda>rp. \<not> (role_id rp = roleId \<and> permission_id rp = permissionId))
                        (rolePermissions w1)\<rparr>;
               role = find (\<lambda>r. r_id r = roleId) (roles w);
               permission = find (\<lambda>p. p_id p = permissionId) (permissions w)
           in (True,
               show_toast \<lparr>t_title = ''Permission removed'',
                 t_description =
                   quoted (name_text (map_option p_name permission)) @ '' removed from ''
                     @ quoted (name_text (map_option r_name role)) @ ''.'',
                 t_variant = Default\<rparr> w2)))"

subsection \<open>Derived queries\<close>

definition getPermissionsForRole :: "RBAC \<Rightarrow> string \<Rightarrow> Permission list" where
  "getPermissionsForRole w roleId =
     (let permissionIds =
            map permission_id (filter (\<lambda>rp. role_id rp = roleId) (rolePermissions w))
      in filter (\<lambda>p. p_id p \<in> set permissionIds) (permissions w))"

definition getRolesForPermission :: "RBAC \<Rightarrow> string \<Rightarrow> Role list" where
  "getRolesForPermission w permissionId =
     (let roleIds =
            map role_id (filter (\<lambda>rp. permission_id rp = permissionId) (rolePermissions w))
      in filter (\<lambda>r. r_id r \<in> set roleIds) (roles w))"

section \<open>The dispatcher of the assistant page (pages/AIAssistant)\<close>

text \<open>
  The action object the model call returns. \<open>data\<close> and each of its fields may be
  absent.
\<close>

record AIData =
  d_name :: "string option"
  d_description :: "string option"
  role_name :: "string option"
  permission_name :: "string option"

record AIResponse =
  ai_action :: string
  ai_data :: "AIData option"
  ai_message :: string
  ai_error :: "string option"

record ActionResult =
  success :: bool
  message :: string

text \<open>
  \<open>data?.f\<close> followed by a truth test: an absent \<open>data\<close>, an absent field and the
  empty string all count as false; otherwise the string is there.
\<close>

definition truthy_field :: "(AIData \<Rightarrow> string option) \<Rightarrow> AIData option \<Rightarrow> string option" where
  "truthy_field f data =
     (case data of
        None \<Rightarrow> None
      | Some d \<Rightarrow> (case f d of None \<Rightarrow> None | Some s \<Rightarrow> if s = [] then None else Some s))"

definition optional_field :: "(AIData \<Rightarrow> string option) \<Rightarrow> AIData option \<Rightarrow> string option" where
  "optional_field f data = (case data of None \<Rightarrow> None | Some d \<Rightarrow> f d)"

definition failure :: "string \<Rightarrow> ActionResult" where
  "failure m = \<lparr>success = False, message = m\<rparr>"

definition succeeded :: "string \<Rightarrow> ActionResult" where
  "succeeded m = \<lparr>success = True, message = m\<rparr>"

text \<open>
  \<open>executeAction\<close>: a \<open>switch\<close> on the action string. The operations of the hook
  return their failures as values and never throw, so the \<open>catch\<close> branch of the source
  has no counterpart here.
\<close>

definition executeAction ::
  "runtime \<Rightarrow> supabase \<Rightarrow> AIResponse \<Rightarrow> RBAC \<Rightarrow> ActionResult \<times> RBAC" where
  "executeAction rt sb response w =
     (let action = ai_action response; data = ai_data response in
      if action = ''create_permission'' then
        (case truthy_field d_name data of
           None \<Rightarrow> (failure ''Permission name is required'', w)
         | Some name \<Rightarrow>
             (case createPermission rt sb name (optional_field d_description data) w of
                (Some row, w') \<Rightarrow>
                  (succeeded (''Permission '' @ quoted name @ '' created successfully!''), w')
              | (None, w') \<Rightarrow>
                  (failure ''Failed to create permission. It may already exist.'', w')))
      else if action = ''create_role'' then
        (case truthy_field d_name data of
           None \<Rightarrow> (failure ''Role name is required'', w)
         | Some name \<Rightarrow>
             (case createRole rt sb name (optional_field d_description data) w of
                (Some row, w') \<Rightarrow>
                  (succeeded (''Role '' @ quoted name @ '' created successfully!''), w')
              | (None, w') \<Rightarrow>
                  (failure ''Failed to create role. It may already exist.'', w')))
      else if action = ''assign_permission'' then
        (case (truthy_field role_name data, truthy_field permission_name data) of
           (Some rname, Some pname) \<Rightarrow>
             (let role = find (\<lambda>r. toLowerCase rt (r_name r) = toLowerCase rt rname) (roles w);
                  permission =
                    find (\<lambda>p. toLowerCase rt (p_name p) = toLowerCase rt pname) (permissions w)
              in case role of
                   None \<Rightarrow> (failure (''Role '' @ quoted rname @ '' not found''), w)
                 | Some r \<Rightarrow>
                     (case permission of
                        None \<Rightarrow> (failure (''Permission '' @ quoted pname @ '' not found''), w)
                      | Some p \<Rightarrow>
                          (case assignPermissionToRole sb (r_id r) (p_id p) w of
                             (Some row, w') \<Rightarrow>
                               (succeeded (''Permission '' @ quoted (p_name p)
                                  @ '' assigned to '' @ quoted (r_name r)
                                  @ '' successfully!''), w')
                           | (None, w') \<Rightarrow>
                               (failure
                                  ''Failed to assign permission. It may already be assigned.'',
                                w'))))
         | _ \<Rightarrow> (failure ''Both role name and permission name are required'', w))
      else if action = ''remove_permission'' then
        (case (truthy_field role_name data, truthy_field permission_name data) of
           (Some rname, Some pname) \<Rightarrow>
             (let role = find (\<lambda>r. toLowerCase rt (r_name r) = toLowerCase rt rname) (roles w);
                  permission =
                    find (\<lambda>p. toLowerCase rt (p_name p) = toLowerCase rt pname) (permissions w)
              in case role of
                   None \<Rightarrow> (failure (''Role '' @ quoted rname @ '' not found''), w)
                 | Some r \<Rightarrow>
                     (case permission of
                        None \<Rightarrow> (failure (''Permission '' @ quoted pname @ '' not found''), w)
                      | Some p \<Rightarrow>
                          (case removePermissionFromRole sb (r_id r) (p_id p) w of
                             (True, w') \<Rightarrow>
                               (succeeded (''Permission '' @ quoted (p_name p)
                                  @ '' removed from '' @ quoted (r_name r)
                                  @ '' successfully!''), w')
                           | (False, w') \<Rightarrow> (failure ''Failed to remove permission.'', w'))))
         | _ \<Rightarrow> (failure ''Both role name and permission name are required'', w))
      else if action = ''info'' then (succeeded (ai_message response), w)
      else (succeeded (ai_message response), w))"

section \<open>Sequences of calls\<close>

text \<open>
  A call of one of the eight mutating operations or of \<open>refresh\<close> (which is
  \<open>fetchData\<close>, here with a user signed in), and a session: a list of calls, each with
  the answers the store gives while that call is awaited.
\<close>

datatype call =
    CreatePermission string "string option"
  | UpdatePermission string string "string option"
  | DeletePermission string
  | CreateRole string "string option"
  | UpdateRole string string "string option"
  | DeleteRole string
  | AssignPermissionToRole string string
  | RemovePermissionFromRole string string
  | Refresh

fun perform :: "runtime \<Rightarrow> supabase \<Rightarrow> call \<Rightarrow> RBAC \<Rightarrow> RBAC" where
  "perform rt sb (CreatePermission n d) w = snd (createPermission rt sb n d w)"
| "perform rt sb (UpdatePermission i n d) w = snd (updatePermission rt sb i n d w)"
| "perform rt sb (DeletePermission i) w = snd (deletePermission sb i w)"
| "perform rt sb (CreateRole n d) w = snd (createRole rt sb n d w)"
| "perform rt sb (UpdateRole i n d) w = snd (updateRole rt sb i n d w)"
| "perform rt sb (DeleteRole i) w = snd (deleteRole sb i w)"
| "perform rt sb (AssignPermissionToRole r p) w = snd (assignPermissionToRole sb r p w)"
| "perform rt sb (RemovePermissionFromRole r p) w = snd (removePermissionFromRole sb r p w)"
| "perform rt sb Refresh w = snd (fetchData (Some ()) sb w)"

fun run :: "runtime \<Rightarrow> (supabase \<times> call) list \<Rightarrow> RBAC \<Rightarrow> RBAC" where
  "run rt [] w = w"
| "run rt ((sb, c) # cs) w = run rt cs (perform rt sb c w)"

section \<open>Comparators and concrete values\<close>

text \<open>
  A comparator is consistent when the relation "compares at most equal" is total and
  transitive; \<open>Array.prototype.sort\<close> promises a sorted result only for such a one.
\<close>

definition consistent :: "('a \<Rightarrow> 'a \<Rightarrow> int) \<Rightarrow> bool" where
  "consistent cmp =
     ((\<forall>a b. cmp a b \<le> 0 \<or> cmp b a \<le> 0) \<and>
      (\<forall>a b c. cmp a b \<le> 0 \<longrightarrow> cmp b c \<le> 0 \<longrightarrow> cmp a c \<le> 0))"

text \<open>The collections are in the order of the runtime's comparator, by name.\<close>

definition permissions_sorted :: "runtime \<Rightarrow> RBAC \<Rightarrow> bool" where
  "permissions_sorted rt w =
     sorted_wrt (\<lambda>a b. localeCompare rt (p_name a) (p_name b) \<le> 0) (permissions w)"

definition roles_sorted :: "runtime \<Rightarrow> RBAC \<Rightarrow> bool" where
  "roles_sorted rt w =
     sorted_wrt (\<lambda>a b. localeCompare rt (r_name a) (r_name b) \<le> 0) (roles w)"

text \<open>
  The rows a refresh would install are in the order of the runtime's comparator, and a
  session in which every refresh is answered so.
\<close>

definition answers_ordered :: "runtime \<Rightarrow> supabase \<Rightarrow> bool" where
  "answers_ordered rt sb =
     ((case select_permissions sb of
         Inl e \<Rightarrow> True
       | Inr ps \<Rightarrow> sorted_wrt (\<lambda>a b. localeCompare rt (p_name a) (p_name b) \<le> 0) ps) \<and>
      (case select_roles sb of
         Inl e \<Rightarrow> True
       | Inr rs \<Rightarrow> sorted_wrt (\<lambda>a b. localeCompare rt (r_name a) (r_name b) \<le> 0) rs))"

fun orderly :: "runtime \<Rightarrow> (supabase \<times> call) list \<Rightarrow> bool" where
  "orderly rt [] = True"
| "orderly rt ((sb, c) # cs) = ((c = Refresh \<longrightarrow> answers_ordered rt sb) \<and> orderly rt cs)"

text \<open>
  Comparison of two lists of weights, position by position: the first difference
  decides, and a proper prefix comes first.
\<close>

fun level_compare :: "nat list \<Rightarrow> nat list \<Rightarrow> int" where
  "level_compare [] [] = 0"
| "level_compare [] (y # ys) = - 1"
| "level_compare (x # xs) [] = 1"
| "level_compare (x # xs) (y # ys) =
     (if x < y then - 1 else if y < x then 1 else level_compare xs ys)"

text \<open>
  Case-sensitive lexical comparison: the weight of a character is its code, so every
  capital comes before every small letter.
\<close>

definition code_compare :: "string \<Rightarrow> string \<Rightarrow> int" where
  "code_compare a b = level_compare (map of_char a) (map of_char b)"

definition lexically_sorted :: "string list \<Rightarrow> bool" where
  "lexically_sorted ns = sorted_wrt (\<lambda>a b. code_compare a b \<le> 0) ns"

text \<open>
  \<open>String.prototype.localeCompare\<close> with no locale argument, as the runtimes compute it
  (the root collation of the Unicode collation algorithm), on plain names: names written
  with ASCII letters, digits, the underscore and the space. The letters are compared
  first without their case, in the order space, underscore, digits, letters; only when
  two names agree there does case decide, the small letter before the capital at the
  first position where they differ. So \<open>beta\<close> comes before \<open>Zeta\<close> and \<open>can_edit\<close>
  before \<open>Can_edit\<close>.

  \<open>String.prototype.toLowerCase\<close> on such names turns the capitals \<open>A\<close> to \<open>Z\<close>
  into small letters and keeps every other character.

  A byte that is no character of a plain name gets a weight after the letters and is
  kept by the lower-casing. That only makes the two functions total: it is not what the
  built-ins do with other characters, and nothing below applies them to a name that is
  not plain.
\<close>

definition plain_name :: "string \<Rightarrow> bool" where
  "plain_name n =
     list_all (\<lambda>c. (97 \<le> (of_char c :: nat) \<and> (of_char c :: nat) \<le> 122)
        \<or> (65 \<le> (of_char c :: nat) \<and> (of_char c :: nat) \<le> 90)
        \<or> (48 \<le> (of_char c :: nat) \<and> (of_char c :: nat) \<le> 57)
        \<or> (of_char c :: nat) = 95 \<or> (of_char c :: nat) = 32) n"

definition primary_weight :: "char \<Rightarrow> nat" where
  "primary_weight c =
     (let n = of_char c in
      if 97 \<le> n \<and> n \<le> 122 then n - 85
      else if 65 \<le> n \<and> n \<le> 90 then n - 53
      else if 48 \<le> n \<and> n \<le> 57 then n - 46
      else if n = 95 then 1
      else if n = 32 then 0
      else 38 + n)"

definition case_weight :: "char \<Rightarrow> nat" where
  "case_weight c = (if 65 \<le> (of_char c :: nat) \<and> (of_char c :: nat) \<le> 90 then 1 else 0)"

definition locale_compare :: "string \<Rightarrow> string \<Rightarrow> int" where
  "locale_compare a b =
     (let p = level_compare (map primary_weight a) (map primary_weight b) in
      if p \<noteq> 0 then p else level_compare (map case_weight a) (map case_weight b))"

definition ascii_lower :: "char \<Rightarrow> char" where
  "ascii_lower c =
     (if 65 \<le> (of_char c :: nat) \<and> (of_char c :: nat) \<le> 90
      then char_of (of_char c + (32 :: nat)) else c)"

definition ascii_runtime :: runtime where
  "ascii_runtime = \<lparr>localeCompare = locale_compare, toLowerCase = map ascii_lower\<rparr>"

text \<open>Sample rows and a mirror that holds them.\<close>

definition perm_delete :: Permission where
  "perm_delete = \<lparr>p_id = ''p1'', p_name = ''can_delete'', p_description = None,
     p_created_at = ''2024-01-01''\<rparr>"

definition perm_edit :: Permission where
  "perm_edit = \<lparr>p_id = ''p2'', p_name = ''can_edit'', p_description = Some ''edit articles'',
     p_created_at = ''2024-01-02''\<rparr>"

definition role_editor :: Role where
  "role_editor = \<lparr>r_id = ''r1'', r_name = ''Editor'', r_description = None,
     r_created_at = ''2024-01-01''\<rparr>"

definition role_viewer :: Role where
  "role_viewer = \<lparr>r_id = ''r2'', r_name = ''Viewer'', r_description = None,
     r_created_at = ''2024-01-03''\<rparr>"

definition link_editor_edit :: RolePermission where
  "link_editor_edit = \<lparr>rp_id = ''l1'', role_id = ''r1'', permission_id = ''p2'',
     rp_created_at = ''2024-01-04''\<rparr>"

definition link_viewer_edit :: RolePermission where
  "link_viewer_edit = \<lparr>rp_id = ''l2'', role_id = ''r2'', permission_id = ''p2'',
     rp_created_at = ''2024-01-05''\<rparr>"

definition loaded :: RBAC where
  "loaded = \<lparr>permissions = [perm_delete, perm_edit], roles = [role_editor, role_viewer],
     rolePermissions = [link_editor_edit, link_viewer_edit], loading = False,
     toasts = [], requests = []\<rparr>"

text \<open>
  Three stores: one that accepts every call and answers an insert or update with a row
  carrying the values sent, one that fails every call with a transport error, and one
  that rejects every insert of a link as a repeated pair. Two more differ from the first
  in their reads: one sends the rows of the sample mirror, one fails the read of the
  roles.
\<close>

definition store_ok :: supabase where
  "store_ok =
     \<lparr>select_permissions = Inr [perm_delete],
      select_roles = Inr [role_viewer],
      select_role_permissions = Inr [],
      insert_permission = (\<lambda>n d. Inr \<lparr>p_id = ''p9'', p_name = n, p_description = d,
         p_created_at = ''2024-02-01''\<rparr>),
      update_permission = (\<lambda>i n d. Inr \<lparr>p_id = i, p_name = n, p_description = d,
         p_created_at = ''2024-01-01''\<rparr>),
      delete_permission = (\<lambda>i. None),
      insert_role = (\<lambda>n d. Inr \<lparr>r_id = ''r9'', r_name = n, r_description = d,
         r_created_at = ''2024-02-01''\<rparr>),
      update_role = (\<lambda>i n d. Inr \<lparr>r_id = i, r_name = n, r_description = d,
         r_created_at = ''2024-01-01''\<rparr>),
      delete_role = (\<lambda>i. None),
      insert_role_permission = (\<lambda>r p. Inr \<lparr>rp_id = ''l9'', role_id = r, permission_id = p,
         rp_created_at = ''2024-02-01''\<rparr>),
      delete_role_permission = (\<lambda>r p. None)\<rparr>"

definition store_failing :: "string \<Rightarrow> supabase" where
  "store_failing m =
     (let e = \<lparr>err_message = m\<rparr> in
      \<lparr>select_permissions = Inl e,
       select_roles = Inl e,
       select_role_permissions = Inl e,
       insert_permission = (\<lambda>n d. Inl e),
       update_permission = (\<lambda>i n d. Inl e),
       delete_permission = (\<lambda>i. Some e),
       insert_role = (\<lambda>n d. Inl e),
       update_role = (\<lambda>i n d. Inl e),
       delete_role = (\<lambda>i. Some e),
       insert_role_permission = (\<lambda>r p. Inl e),
       delete_role_permission = (\<lambda>r p. Some e)\<rparr>)"

definition store_down :: supabase where
  "store_down = store_failing ''Failed to fetch''"

definition store_duplicate :: supabase where
  "store_duplicate =
     store_failing ''duplicate key value violates unique constraint''"

definition store_unchanged :: supabase where
  "store_unchanged =
     store_ok\<lparr>select_permissions := Inr [perm_delete, perm_edit],
       select_roles := Inr [role_editor, role_viewer],
       select_role_permissions := Inr [link_editor_edit, link_viewer_edit]\<rparr>"

definition store_roles_down :: supabase where
  "store_roles_down = store_ok\<lparr>select_roles := Inl \<lparr>err_message = ''Failed to fetch''\<rparr>\<rparr>"

text \<open>
  Action objects as the model call returns them: one that names a role and a permission,
  one that names the entity to create, and one whose action the dispatcher does not know.
\<close>

definition link_action :: "string \<Rightarrow> string \<Rightarrow> string \<Rightarrow> AIResponse" where
  "link_action a rname pname =
     \<lparr>ai_action = a,
      ai_data = Some \<lparr>d_name = None, d_description = None, role_name = Some rname,
        permission_name = Some pname\<rparr>,
      ai_message = ''Done.'', ai_error = None\<rparr>"

definition create_action :: "string \<Rightarrow> string \<Rightarrow> AIResponse" where
  "create_action a n =
     \<lparr>ai_action = a,
      ai_data = Some \<lparr>d_name = Some n, d_description = None, role_name = None,
        permission_name = None\<rparr>,
      ai_message = ''Done.'', ai_error = None\<rparr>"

definition unknown_action :: AIResponse where
  "unknown_action =
     \<lparr>ai_action = ''delete_role'', ai_data = None,
      ai_message = ''Deleting the role Viewer.'', ai_error = None\<rparr>"

lemmas sample_defs =
  perm_delete_def perm_edit_def role_editor_def role_viewer_def link_editor_edit_def
  link_viewer_edit_def loaded_def initial_def

section \<open>Properties\<close>

subsection \<open>Field lemmas\<close>

lemma show_toast_fields [simp]:
  "permissions (show_toast t w) = permissions w"
  "roles (show_toast t w) = roles w"
  "rolePermissions (show_toast t w) = rolePermissions w"
  "loading (show_toast t w) = loading w"
  "requests (show_toast t w) = requests w"
  "toasts (show_toast t w) = toasts w @ [t]"
  by (simp_all add: show_toast_def)

lemma issue_fields [simp]:
  "permissions (issue q w) = permissions w"
  "roles (issue q w) = roles w"
  "rolePermissions (issue q w) = rolePermissions w"
  "loading (issue q w) = loading w"
  "toasts (issue q w) = toasts w"
  "requests (issue q w) = requests w @ [q]"
  by (simp_all add: issue_def)

subsection \<open>The sort\<close>

lemma set_insort_js: "set (insort_js cmp x xs) = insert x (set xs)"
  by (induction xs) auto

lemma set_sort_js: "set (sort_js cmp xs) = set xs"
  by (induction xs) (auto simp: sort_js_def set_insort_js)

lemma sorted_insort_js:
  assumes "consistent cmp" and "sorted_wrt (\<lambda>a b. cmp a b \<le> 0) xs"
  shows "sorted_wrt (\<lambda>a b. cmp a b \<le> 0) (insort_js cmp x xs)"
  using assms(2)
proof (induction xs)
  case Nil
  then show ?case by simp
next
  case (Cons y ys)
  have total: "\<And>a b. cmp a b \<le> 0 \<or> cmp b a \<le> 0"
    and trans: "\<And>a b c. cmp a b \<le> 0 \<Longrightarrow> cmp b c \<le> 0 \<Longrightarrow> cmp a c \<le> 0"
    using assms(1) unfolding consistent_def by blast+
  show ?case
  proof (cases "cmp x y \<le> 0")
    case True
    with Cons.prems trans show ?thesis by auto
  next
    case False
    with total have "cmp y x \<le> 0" by blast
    with False Cons show ?thesis by (auto simp: set_insort_js)
  qed
qed

lemma sorted_sort_js:
  "consistent cmp \<Longrightarrow> sorted_wrt (\<lambda>a b. cmp a b \<le> 0) (sort_js cmp xs)"
proof (induction xs)
  case Nil
  then show ?case by (simp add: sort_js_def)
next
  case (Cons x xs)
  then have "sorted_wrt (\<lambda>a b. cmp a b \<le> 0) (insort_js cmp x (sort_js cmp xs))"
    by (simp add: sorted_insort_js)
  then show ?case by (simp add: sort_js_def)
qed

lemma consistent_on_key: "consistent cmp \<Longrightarrow> consistent (\<lambda>a b. cmp (f a) (f b))"
  unfolding consistent_def by blast

lemma sorted_sort_js_key:
  "consistent cmp \<Longrightarrow>
   sorted_wrt (\<lambda>a b. cmp (f a) (f b) \<le> 0) (sort_js (\<lambda>a b. cmp (f a) (f b)) xs)"
  using sorted_sort_js [OF consistent_on_key, of cmp f xs] by simp

subsection \<open>The comparator of the concrete runtime\<close>

lemma level_compare_eq: "level_compare x y = 0 \<longleftrightarrow> x = y"
  by (induction x y rule: level_compare.induct) auto

lemma level_compare_total: "level_compare x y \<le> 0 \<or> level_compare y x \<le> 0"
  by (induction x y rule: level_compare.induct) auto

lemma level_compare_flip: "level_compare x y < 0 \<Longrightarrow> 0 < level_compare y x"
  by (induction x y rule: level_compare.induct) (auto split: if_splits)

lemma level_compare_trans:
  "level_compare a b \<le> 0 \<Longrightarrow> level_compare b c \<le> 0 \<Longrightarrow> level_compare a c \<le> 0"
proof (induction a b arbitrary: c rule: level_compare.induct)
  case 1
  then show ?case by simp
next
  case (2 y ys)
  then show ?case by (cases c) simp_all
next
  case (3 x xs)
  then show ?case by simp
next
  case (4 x xs y ys)
  show ?case
  proof (cases c)
    case Nil
    with 4(3) show ?thesis by simp
  next
    case (Cons z zs)
    have xy: "x \<le> y" using 4(2) by (simp split: if_splits)
    have yz: "y \<le> z" using 4(3) Cons by (simp split: if_splits)
    show ?thesis
    proof (cases "x < z")
      case True
      then show ?thesis by (simp add: Cons)
    next
      case False
      with xy yz have e: "x = y" "y = z" by linarith+
      then have "level_compare xs ys \<le> 0" "level_compare ys zs \<le> 0"
        using 4(2) 4(3) Cons by (simp_all split: if_splits)
      with 4(1) e have "level_compare xs zs \<le> 0" by simp
      with e show ?thesis by (simp add: Cons)
    qed
  qed
qed

lemma level_compare_strict_trans:
  assumes "level_compare a b < 0" and "level_compare b c \<le> 0"
  shows "level_compare a c < 0"
proof -
  from assms have le: "level_compare a c \<le> 0"
    using level_compare_trans [of a b c] by simp
  have "level_compare a c \<noteq> 0"
  proof
    assume "level_compare a c = 0"
    then have "a = c" by (simp add: level_compare_eq)
    with assms(2) have "level_compare b a \<le> 0" by simp
    moreover from assms(1) have "0 < level_compare b a" by (rule level_compare_flip)
    ultimately show False by simp
  qed
  with le show ?thesis by simp
qed

lemma two_level_consistent:
  "consistent (\<lambda>a b. let p = level_compare (f a) (f b) in
      if p \<noteq> 0 then p else level_compare (g a) (g b))"
proof -
  let ?P = "\<lambda>a b. level_compare (f a) (f b)"
  let ?T = "\<lambda>a b. level_compare (g a) (g b)"
  let ?C = "\<lambda>a b. if ?P a b \<noteq> 0 then ?P a b else ?T a b"
  have total: "?C a b \<le> 0 \<or> ?C b a \<le> 0" for a b
  proof (cases "?P a b = 0")
    case True
    then have "f a = f b" by (simp add: level_compare_eq)
    then have "?P b a = 0" by (simp add: level_compare_eq)
    with True show ?thesis using level_compare_total [of "g a" "g b"] by simp
  next
    case False
    then have "f a \<noteq> f b" by (simp add: level_compare_eq)
    then have "?P b a \<noteq> 0" by (auto simp: level_compare_eq)
    with False show ?thesis using level_compare_total [of "f a" "f b"] by simp
  qed
  have trans: "?C a c \<le> 0" if ab: "?C a b \<le> 0" and bc: "?C b c \<le> 0" for a b c
  proof (cases "?P a b = 0")
    case True
    then have e: "f a = f b" by (simp add: level_compare_eq)
    from True ab have tab: "?T a b \<le> 0" by simp
    show ?thesis
    proof (cases "?P b c = 0")
      case True
      with bc have "?T b c \<le> 0" by simp
      with tab have "?T a c \<le> 0" by (rule level_compare_trans)
      with True e show ?thesis by simp
    next
      case False
      with bc e show ?thesis by simp
    qed
  next
    case False
    with ab have lt: "?P a b < 0" by simp
    have "?P b c \<le> 0"
    proof (cases "?P b c = 0")
      case True
      then show ?thesis by simp
    next
      case False
      with bc show ?thesis by simp
    qed
    with lt have "?P a c < 0" by (rule level_compare_strict_trans)
    then show ?thesis by simp
  qed
  show ?thesis
    unfolding consistent_def Let_def using total trans by blast
qed

lemma locale_compare_consistent: "consistent locale_compare"
proof -
  have "locale_compare = (\<lambda>a b. let p = level_compare (map primary_weight a) (map primary_weight b) in
      if p \<noteq> 0 then p else level_compare (map case_weight a) (map case_weight b))"
    by (intro ext) (simp add: locale_compare_def)
  then show ?thesis
    using two_level_consistent [of "map primary_weight" "map case_weight"] by simp
qed

subsection \<open>The collections after each operation\<close>

lemma createPermission_mirror:
  "permissions (snd (createPermission rt sb n d w)) =
     (case insert_permission sb n d of
        Inl e \<Rightarrow> permissions w
      | Inr row \<Rightarrow>
          sort_js (\<lambda>a b. localeCompare rt (p_name a) (p_name b)) (permissions w @ [row]))"
  "roles (snd (createPermission rt sb n d w)) = roles w"
  "rolePermissions (snd (createPermission rt sb n d w)) = rolePermissions w"
  by (simp_all add: createPermission_def Let_def split: sum.splits)

lemma updatePermission_mirror:
  "permissions (snd (updatePermission rt sb i n d w)) =
     (case update_permission sb i n d of
        Inl e \<Rightarrow> permissions w
      | Inr row \<Rightarrow>
          sort_js (\<lambda>a b. localeCompare rt (p_name a) (p_name b))
            (map (\<lambda>p. if p_id p = i then row else p) (permissions w)))"
  "roles (snd (updatePermission rt sb i n d w)) = roles w"
  "rolePermissions (snd (updatePermission rt sb i n d w)) = rolePermissions w"
  by (simp_all add: updatePermission_def Let_def split: sum.splits)

lemma deletePermission_mirror:
  "permissions (snd (deletePermission sb i w)) =
     (case delete_permission sb i of
        Some e \<Rightarrow> permissions w
      | None \<Rightarrow> filter (\<lambda>p. p_id p \<noteq> i) (permissions w))"
  "roles (snd (deletePermission sb i w)) = roles w"
  "rolePermissions (snd (deletePermission sb i w)) =
     (case delete_permission sb i of
        Some e \<Rightarrow> rolePermissions w
      | None \<Rightarrow> filter (\<lambda>rp. permission_id rp \<noteq> i) (rolePermissions w))"
  by (simp_all add: deletePermission_def Let_def split: option.splits)

lemma createRole_mirror:
  "permissions (snd (createRole rt sb n d w)) = permissions w"
  "roles (snd (createRole rt sb n d w)) =
     (case insert_role sb n d of
        Inl e \<Rightarrow> roles w
      | Inr row \<Rightarrow> sort_js (\<lambda>a b. localeCompare rt (r_name a) (r_name b)) (roles w @ [row]))"
  "rolePermissions (snd (createRole rt sb n d w)) = rolePermissions w"
  by (simp_all add: createRole_def Let_def split: sum.splits)

lemma updateRole_mirror:
  "permissions (snd (updateRole rt sb i n d w)) = permissions w"
  "roles (snd (updateRole rt sb i n d w)) =
     (case update_role sb i n d of
        Inl e \<Rightarrow> roles w
      | Inr row \<Rightarrow>
          sort_js (\<lambda>a b. localeCompare rt (r_name a) (r_name b))
            (map (\<lambda>r. if r_id r = i then row else r) (roles w)))"
  "rolePermissions (snd (updateRole rt sb i n d w)) = rolePermissions w"
  by (simp_all add: updateRole_def Let_def split: sum.splits)

lemma deleteRole_mirror:
  "permissions (snd (deleteRole sb i w)) = permissions w"
  "roles (snd (deleteRole sb i w)) =
     (case delete_role sb i of
        Some e \<Rightarrow> roles w
      | None \<Rightarrow> filter (\<lambda>r. r_id r \<noteq> i) (roles w))"
  "rolePermissions (snd (deleteRole sb i w)) =
     (case delete_role sb i of
        Some e \<Rightarrow> rolePermissions w
      | None \<Rightarrow> filter (\<lambda>rp. role_id rp \<noteq> i) (rolePermissions w))"
  by (simp_all add: deleteRole_def Let_def split: option.splits)

lemma assignPermissionToRole_mirror:
  "permissions (snd (assignPermissionToRole sb r p w)) = permissions w"
  "roles (snd (assignPermissionToRole sb r p w)) = roles w"
  "rolePermissions (snd (assignPermissionToRole sb r p w)) =
     (case insert_role_permission sb r p of
        Inl e \<Rightarrow> rolePermissions w
      | Inr row \<Rightarrow> rolePermissions w @ [row])"
  by (simp_all add: assignPermissionToRole_def Let_def split: sum.splits)

lemma removePermissionFromRole_mirror:
  "permissions (snd (removePermissionFromRole sb r p w)) = permissions w"
  "roles (snd (removePermissionFromRole sb r p w)) = roles w"
  "rolePermissions (snd (removePermissionFromRole sb r p w)) =
     (case delete_role_permission sb r p of
        Some e \<Rightarrow> rolePermissions w
      | None \<Rightarrow>
          filter (\<lambda>rp. \<not> (role_id rp = r \<and> permission_id rp = p)) (rolePermissions w))"
  by (simp_all add: removePermissionFromRole_def Let_def split: option.splits)

lemmas mirror_after =
  createPermission_mirror updatePermission_mirror deletePermission_mirror
  createRole_mirror updateRole_mirror deleteRole_mirror
  assignPermissionToRole_mirror removePermissionFromRole_mirror

lemma fetchData_mirror:
  "permissions (snd (fetchData (Some u) sb w)) =
     (if isl (select_permissions sb) \<or> isl (select_roles sb) \<or> isl (select_role_permissions sb)
      then permissions w else projr (select_permissions sb))"
  "roles (snd (fetchData (Some u) sb w)) =
     (if isl (select_permissions sb) \<or> isl (select_roles sb) \<or> isl (select_role_permissions sb)
      then roles w else projr (select_roles sb))"
  "rolePermissions (snd (fetchData (Some u) sb w)) =
     (if isl (select_permissions sb) \<or> isl (select_roles sb) \<or> isl (select_role_permissions sb)
      then rolePermissions w else projr (select_role_permissions sb))"
  "loading (snd (fetchData (Some u) sb w)) = False"
  by (simp_all add: fetchData_def fetch_body_def Let_def split: sum.splits)

lemma perform_permissions_sorted:
  assumes "consistent (localeCompare rt)" and "permissions_sorted rt w"
    and "c = Refresh \<longrightarrow> answers_ordered rt sb"
  shows "permissions_sorted rt (perform rt sb c w)"
proof (cases "c = Refresh")
  case True
  with assms(2,3) show ?thesis
    by (auto simp: permissions_sorted_def fetchData_mirror answers_ordered_def
        split: sum.splits)
next
  case False
  with assms(1,2) show ?thesis
    by (cases c)
      (simp_all add: permissions_sorted_def mirror_after sorted_sort_js_key sorted_wrt_filter
         split: sum.splits option.splits)
qed

lemma perform_roles_sorted:
  assumes "consistent (localeCompare rt)" and "roles_sorted rt w"
    and "c = Refresh \<longrightarrow> answers_ordered rt sb"
  shows "roles_sorted rt (perform rt sb c w)"
proof (cases "c = Refresh")
  case True
  with assms(2,3) show ?thesis
    by (auto simp: roles_sorted_def fetchData_mirror answers_ordered_def split: sum.splits)
next
  case False
  with assms(1,2) show ?thesis
    by (cases c)
      (simp_all add: roles_sorted_def mirror_after sorted_sort_js_key sorted_wrt_filter
         split: sum.splits option.splits)
qed

lemma run_permissions_sorted:
  "consistent (localeCompare rt) \<Longrightarrow> orderly rt calls \<Longrightarrow> permissions_sorted rt w \<Longrightarrow>
   permissions_sorted rt (run rt calls w)"
proof (induction calls arbitrary: w)
  case Nil
  then show ?case by simp
next
  case (Cons sc calls)
  obtain sb c where sc: "sc = (sb, c)" by (cases sc)
  from Cons.prems sc have "permissions_sorted rt (perform rt sb c w)"
    by (intro perform_permissions_sorted) simp_all
  with Cons.IH Cons.prems(1,2) show ?case by (simp add: sc)
qed

lemma run_roles_sorted:
  "consistent (localeCompare rt) \<Longrightarrow> orderly rt calls \<Longrightarrow> roles_sorted rt w \<Longrightarrow>
   roles_sorted rt (run rt calls w)"
proof (induction calls arbitrary: w)
  case Nil
  then show ?case by simp
next
  case (Cons sc calls)
  obtain sb c where sc: "sc = (sb, c)" by (cases sc)
  from Cons.prems sc have "roles_sorted rt (perform rt sb c w)"
    by (intro perform_roles_sorted) simp_all
  with Cons.IH Cons.prems(1,2) show ?case by (simp add: sc)
qed

subsection \<open>The answers of the sample stores\<close>

lemma store_ok_answers:
  "insert_permission store_ok n d =
     Inr \<lparr>p_id = ''p9'', p_name = n, p_description = d, p_created_at = ''2024-02-01''\<rparr>"
  "update_permission store_ok i n d =
     Inr \<lparr>p_id = i, p_name = n, p_description = d, p_created_at = ''2024-01-01''\<rparr>"
  "delete_permission store_ok i = None"
  "insert_role store_ok n d =
     Inr \<lparr>r_id = ''r9'', r_name = n, r_description = d, r_created_at = ''2024-02-01''\<rparr>"
  "update_role store_ok i n d =
     Inr \<lparr>r_id = i, r_name = n, r_description = d, r_created_at = ''2024-01-01''\<rparr>"
  "delete_role store_ok i = None"
  "insert_role_permission store_ok r p =
     Inr \<lparr>rp_id = ''l9'', role_id = r, permission_id = p, rp_created_at = ''2024-02-01''\<rparr>"
  "delete_role_permission store_ok r p = None"
  by (simp_all add: store_ok_def)

lemma store_failing_answers:
  "select_permissions (store_failing m) = Inl \<lparr>err_message = m\<rparr>"
  "select_roles (store_failing m) = Inl \<lparr>err_message = m\<rparr>"
  "select_role_permissions (store_failing m) = Inl \<lparr>err_message = m\<rparr>"
  "insert_permission (store_failing m) n d = Inl \<lparr>err_message = m\<rparr>"
  "update_permission (store_failing m) i n d = Inl \<lparr>err_message = m\<rparr>"
  "delete_permission (store_failing m) i = Some \<lparr>err_message = m\<rparr>"
  "insert_role (store_failing m) n d = Inl \<lparr>err_message = m\<rparr>"
  "update_role (store_failing m) i n d = Inl \<lparr>err_message = m\<rparr>"
  "delete_role (store_failing m) i = Some \<lparr>err_message = m\<rparr>"
  "insert_role_permission (store_failing m) r p = Inl \<lparr>err_message = m\<rparr>"
  "delete_role_permission (store_failing m) r p = Some \<lparr>err_message = m\<rparr>"
  by (simp_all add: store_failing_def Let_def)

lemma store_reads:
  "select_permissions store_unchanged = Inr [perm_delete, perm_edit]"
  "select_roles store_unchanged = Inr [role_editor, role_viewer]"
  "select_role_permissions store_unchanged = Inr [link_editor_edit, link_viewer_edit]"
  "select_permissions store_roles_down = Inr [perm_delete]"
  "select_roles store_roles_down = Inl \<lparr>err_message = ''Failed to fetch''\<rparr>"
  "select_role_permissions store_roles_down = Inr []"
  by (simp_all add: store_unchanged_def store_roles_down_def store_ok_def)

lemmas store_answers =
  store_ok_answers store_failing_answers [of "''Failed to fetch''", folded store_down_def]
  store_failing_answers [of "''duplicate key value violates unique constraint''",
    folded store_duplicate_def]

subsection \<open>The branches of the dispatcher\<close>

lemma executeAction_create_permission:
  "ai_action response = ''create_permission'' \<Longrightarrow>
   executeAction rt sb response w =
     (case truthy_field d_name (ai_data response) of
        None \<Rightarrow> (failure ''Permission name is required'', w)
      | Some name \<Rightarrow>
          (case createPermission rt sb name (optional_field d_description (ai_data response)) w of
             (Some row, w') \<Rightarrow>
               (succeeded (''Permission '' @ quoted name @ '' created successfully!''), w')
           | (None, w') \<Rightarrow>
               (failure ''Failed to create permission. It may already exist.'', w')))"
  unfolding executeAction_def Let_def by simp

lemma executeAction_assign_permission:
  "ai_action response = ''assign_permission'' \<Longrightarrow>
   executeAction rt sb response w =
     (case (truthy_field role_name (ai_data response),
            truthy_field permission_name (ai_data response)) of
        (Some rname, Some pname) \<Rightarrow>
          (case find (\<lambda>r. toLowerCase rt (r_name r) = toLowerCase rt rname) (roles w) of
             None \<Rightarrow> (failure (''Role '' @ quoted rname @ '' not found''), w)
           | Some r \<Rightarrow>
               (case find (\<lambda>p. toLowerCase rt (p_name p) = toLowerCase rt pname)
                       (permissions w) of
                  None \<Rightarrow> (failure (''Permission '' @ quoted pname @ '' not found''), w)
                | Some p \<Rightarrow>
                    (case assignPermissionToRole sb (r_id r) (p_id p) w of
                       (Some row, w') \<Rightarrow>
                         (succeeded (''Permission '' @ quoted (p_name p) @ '' assigned to ''
                            @ quoted (r_name r) @ '' successfully!''), w')
                     | (None, w') \<Rightarrow>
                         (failure ''Failed to assign permission. It may already be assigned.'',
                          w'))))
      | _ \<Rightarrow> (failure ''Both role name and permission name are required'', w))"
  unfolding executeAction_def Let_def by simp

lemma executeAction_remove_permission:
  "ai_action response = ''remove_permission'' \<Longrightarrow>
   executeAction rt sb response w =
     (case (truthy_field role_name (ai_data response),
            truthy_field permission_name (ai_data response)) of
        (Some rname, Some pname) \<Rightarrow>
          (case find (\<lambda>r. toLowerCase rt (r_name r) = toLowerCase rt rname) (roles w) of
             None \<Rightarrow> (failure (''Role '' @ quoted rname @ '' not found''), w)
           | Some r \<Rightarrow>
               (case find (\<lambda>p. toLowerCase rt (p_name p) = toLowerCase rt pname)
                       (permissions w) of
                  None \<Rightarrow> (failure (''Permission '' @ quoted pname @ '' not found''), w)
                | Some p \<Rightarrow>
                    (case removePermissionFromRole sb (r_id r) (p_id p) w of
                       (True, w') \<Rightarrow>
                         (succeeded (''Permission '' @ quoted (p_name p) @ '' removed from ''
                            @ quoted (r_name r) @ '' successfully!''), w')
                     | (False, w') \<Rightarrow> (failure ''Failed to remove permission.'', w'))))
      | _ \<Rightarrow> (failure ''Both role name and permission name are required'', w))"
  unfolding executeAction_def Let_def by simp

lemma requests_after:
  "requests (snd (createPermission rt sb n d w)) = requests w @ [Insert_permission n d]"
  "requests (snd (assignPermissionToRole sb r p w)) = requests w @ [Insert_role_permission r p]"
  "requests (snd (removePermissionFromRole sb r p w)) = requests w @ [Delete_role_permission r p]"
  by (simp_all add: createPermission_def assignPermissionToRole_def removePermissionFromRole_def
      Let_def split: sum.splits option.splits)

lemma link_action_fields:
  "ai_action (link_action a rn pn) = a"
  "truthy_field role_name (ai_data (link_action a rn pn)) = (if rn = [] then None else Some rn)"
  "truthy_field permission_name (ai_data (link_action a rn pn)) =
     (if pn = [] then None else Some pn)"
  by (simp_all add: link_action_def truthy_field_def)

lemma create_action_fields:
  "ai_action (create_action a n) = a"
  "truthy_field d_name (ai_data (create_action a n)) = (if n = [] then None else Some n)"
  "optional_field d_description (ai_data (create_action a n)) = None"
  by (simp_all add: create_action_def truthy_field_def optional_field_def)

lemma assign_results:
  "fst (assignPermissionToRole sb r p w) =
     (case insert_role_permission sb r p of Inl e \<Rightarrow> None | Inr row \<Rightarrow> Some row)"
  by (simp add: assignPermissionToRole_def Let_def split: sum.splits)

lemma executeAction_assign_found:
  assumes "ai_action response = ''assign_permission''"
    and "truthy_field role_name (ai_data response) = Some rname"
    and "truthy_field permission_name (ai_data response) = Some pname"
    and "find (\<lambda>r. toLowerCase rt (r_name r) = toLowerCase rt rname) (roles w) = Some r"
    and "find (\<lambda>p. toLowerCase rt (p_name p) = toLowerCase rt pname) (permissions w) = Some p"
  shows "executeAction rt sb response w =
     ((case fst (assignPermissionToRole sb (r_id r) (p_id p) w) of
         Some row \<Rightarrow>
           succeeded (''Permission '' @ quoted (p_name p) @ '' assigned to ''
             @ quoted (r_name r) @ '' successfully!'')
       | None \<Rightarrow> failure ''Failed to assign permission. It may already be assigned.''),
      snd (assignPermissionToRole sb (r_id r) (p_id p) w))"
  using assms
  by (simp add: executeAction_assign_permission split: prod.splits option.splits)

lemma executeAction_remove_found:
  assumes "ai_action response = ''remove_permission''"
    and "truthy_field role_name (ai_data response) = Some rname"
    and "truthy_field permission_name (ai_data response) = Some pname"
    and "find (\<lambda>r. toLowerCase rt (r_name r) = toLowerCase rt rname) (roles w) = Some r"
    and "find (\<lambda>p. toLowerCase rt (p_name p) = toLowerCase rt pname) (permissions w) = Some p"
  shows "executeAction rt sb response w =
     ((if fst (removePermissionFromRole sb (r_id r) (p_id p) w)
       then succeeded (''Permission '' @ quoted (p_name p) @ '' removed from ''
             @ quoted (r_name r) @ '' successfully!'')
       else failure ''Failed to remove permission.''),
      snd (removePermissionFromRole sb (r_id r) (p_id p) w))"
  using assms
  by (simp add: executeAction_remove_permission split: prod.splits bool.splits)

lemma lower_samples:
  "find (\<lambda>r. toLowerCase ascii_runtime (r_name r) = toLowerCase ascii_runtime ''VIEWER'')
     (roles loaded) = Some role_viewer"
  "find (\<lambda>p. toLowerCase ascii_runtime (p_name p) = toLowerCase ascii_runtime ''Can_Delete'')
     (permissions loaded) = Some perm_delete"
  "find (\<lambda>r. toLowerCase ascii_runtime (r_name r) = toLowerCase ascii_runtime ''Manager'')
     (roles loaded) = None"
  "find (\<lambda>r. toLowerCase ascii_runtime (r_name r) = toLowerCase ascii_runtime ''Editor'')
     (roles loaded) = Some role_editor"
  "find (\<lambda>p. toLowerCase ascii_runtime (p_name p) = toLowerCase ascii_runtime ''can_edit'')
     (permissions loaded) = Some perm_edit"
  "find (\<lambda>r. toLowerCase ascii_runtime (r_name r) = toLowerCase ascii_runtime [])
     (roles loaded) = None"
  by (simp_all add: ascii_runtime_def ascii_lower_def sample_defs char_of_def bit_Suc_0_iff)

section \<open>The claims\<close>

subsection \<open>Cascading deletes\<close>

text \<open>
  C1. When the store accepts \<open>deletePermission(id)\<close>, the call returns \<open>true\<close>, the
  Permission collection loses exactly the entries with that id and the assignment
  collection loses exactly the entries whose \<open>permission_id\<close> is that id, the roles
  staying as they were. Afterwards no permission and no assignment carries the id,
  \<open>getRolesForPermission(id)\<close> is empty and no \<open>getPermissionsForRole\<close> returns a
  permission with the id. \<open>deleteRole(id)\<close> is the mirror image, on \<open>role_id\<close>.
\<close>

theorem delete_cascades:
  "(delete_permission sb i = None \<longrightarrow>
      fst (deletePermission sb i w) = True
      \<and> permissions (snd (deletePermission sb i w)) = filter (\<lambda>p. p_id p \<noteq> i) (permissions w)
      \<and> rolePermissions (snd (deletePermission sb i w)) =
          filter (\<lambda>rp. permission_id rp \<noteq> i) (rolePermissions w)
      \<and> roles (snd (deletePermission sb i w)) = roles w
      \<and> (\<forall>p\<in>set (permissions (snd (deletePermission sb i w))). p_id p \<noteq> i)
      \<and> (\<forall>rp\<in>set (rolePermissions (snd (deletePermission sb i w))). permission_id rp \<noteq> i)
      \<and> getRolesForPermission (snd (deletePermission sb i w)) i = []
      \<and> (\<forall>roleId. \<forall>p\<in>set (getPermissionsForRole (snd (deletePermission sb i w)) roleId).
            p_id p \<noteq> i))
   \<and> (delete_role sb i = None \<longrightarrow>
      fst (deleteRole sb i w) = True
      \<and> roles (snd (deleteRole sb i w)) = filter (\<lambda>r. r_id r \<noteq> i) (roles w)
      \<and> rolePermissions (snd (deleteRole sb i w)) =
          filter (\<lambda>rp. role_id rp \<noteq> i) (rolePermissions w)
      \<and> permissions (snd (deleteRole sb i w)) = permissions w
      \<and> (\<forall>r\<in>set (roles (snd (deleteRole sb i w))). r_id r \<noteq> i)
      \<and> (\<forall>rp\<in>set (rolePermissions (snd (deleteRole sb i w))). role_id rp \<noteq> i)
      \<and> getPermissionsForRole (snd (deleteRole sb i w)) i = []
      \<and> (\<forall>permissionId. \<forall>r\<in>set (getRolesForPermission (snd (deleteRole sb i w)) permissionId).
            r_id r \<noteq> i))"
proof (intro conjI impI)
  assume ok: "delete_permission sb i = None"
  let ?w = "snd (deletePermission sb i w)"
  show "fst (deletePermission sb i w) = True"
    using ok by (simp add: deletePermission_def)
  show P: "permissions ?w = filter (\<lambda>p. p_id p \<noteq> i) (permissions w)"
    using ok by (simp add: deletePermission_def)
  show L: "rolePermissions ?w = filter (\<lambda>rp. permission_id rp \<noteq> i) (rolePermissions w)"
    using ok by (simp add: deletePermission_def)
  show "roles ?w = roles w"
    using ok by (simp add: deletePermission_def)
  show "\<forall>p\<in>set (permissions ?w). p_id p \<noteq> i"
    by (simp add: P)
  show "\<forall>rp\<in>set (rolePermissions ?w). permission_id rp \<noteq> i"
    by (simp add: L)
  show "getRolesForPermission ?w i = []"
    by (simp add: getRolesForPermission_def L)
  show "\<forall>roleId. \<forall>p\<in>set (getPermissionsForRole ?w roleId). p_id p \<noteq> i"
    by (simp add: getPermissionsForRole_def P)
next
  assume ok: "delete_role sb i = None"
  let ?w = "snd (deleteRole sb i w)"
  show "fst (deleteRole sb i w) = True"
    using ok by (simp add: deleteRole_def)
  show R: "roles ?w = filter (\<lambda>r. r_id r \<noteq> i) (roles w)"
    using ok by (simp add: deleteRole_def)
  show L: "rolePermissions ?w = filter (\<lambda>rp. role_id rp \<noteq> i) (rolePermissions w)"
    using ok by (simp add: deleteRole_def)
  show "permissions ?w = permissions w"
    using ok by (simp add: deleteRole_def)
  show "\<forall>r\<in>set (roles ?w). r_id r \<noteq> i"
    by (simp add: R)
  show "\<forall>rp\<in>set (rolePermissions ?w). role_id rp \<noteq> i"
    by (simp add: L)
  show "getPermissionsForRole ?w i = []"
    by (simp add: getPermissionsForRole_def L)
  show "\<forall>permissionId. \<forall>r\<in>set (getRolesForPermission ?w permissionId). r_id r \<noteq> i"
    by (simp add: getRolesForPermission_def R)
qed

theorem delete_cascades_witness:
  "delete_permission store_ok ''p2'' = None
   \<and> delete_role store_ok ''r1'' = None
   \<and> permissions (snd (deletePermission store_ok ''p2'' loaded)) = [perm_delete]
   \<and> rolePermissions (snd (deletePermission store_ok ''p2'' loaded)) = []
   \<and> getRolesForPermission (snd (deletePermission store_ok ''p2'' loaded)) ''p2'' = []
   \<and> roles (snd (deleteRole store_ok ''r1'' loaded)) = [role_viewer]
   \<and> rolePermissions (snd (deleteRole store_ok ''r1'' loaded)) = [link_viewer_edit]
   \<and> getPermissionsForRole (snd (deleteRole store_ok ''r1'' loaded)) ''r1'' = []"
proof -
  have ok: "delete_permission store_ok ''p2'' = None" "delete_role store_ok ''r1'' = None"
    by (simp_all add: store_answers)
  have p: "filter (\<lambda>p. p_id p \<noteq> ''p2'') (permissions loaded) = [perm_delete]"
    by (simp add: sample_defs)
  have lp: "filter (\<lambda>rp. permission_id rp \<noteq> ''p2'') (rolePermissions loaded) = []"
    by (simp add: sample_defs)
  have r: "filter (\<lambda>r. r_id r \<noteq> ''r1'') (roles loaded) = [role_viewer]"
    by (simp add: sample_defs)
  have lr: "filter (\<lambda>rp. role_id rp \<noteq> ''r1'') (rolePermissions loaded) = [link_viewer_edit]"
    by (simp add: sample_defs)
  from delete_cascades [of store_ok "''p2''" loaded] ok(1)
  have "permissions (snd (deletePermission store_ok ''p2'' loaded)) = [perm_delete]"
    "rolePermissions (snd (deletePermission store_ok ''p2'' loaded)) = []"
    "getRolesForPermission (snd (deletePermission store_ok ''p2'' loaded)) ''p2'' = []"
    by (simp_all only: p lp simp_thms)
  moreover from delete_cascades [of store_ok "''r1''" loaded] ok(2)
  have "roles (snd (deleteRole store_ok ''r1'' loaded)) = [role_viewer]"
    "rolePermissions (snd (deleteRole store_ok ''r1'' loaded)) = [link_viewer_edit]"
    "getPermissionsForRole (snd (deleteRole store_ok ''r1'' loaded)) ''r1'' = []"
    by (simp_all only: r lr simp_thms)
  ultimately show ?thesis using ok by simp
qed

subsection \<open>Derived queries\<close>

text \<open>
  C7. \<open>getPermissionsForRole(roleId)\<close> is the Permission collection, in its order,
  filtered to the permissions whose id is the \<open>permission_id\<close> of some assignment with
  that \<open>role_id\<close>; \<open>getRolesForPermission\<close> is the same for roles. Both are functions
  of the state that return a list only: they issue no call and change nothing, and their
  value is fixed by the two collections they read.
\<close>

theorem getPermissionsForRole_exact:
  "getPermissionsForRole w roleId =
     filter (\<lambda>p. \<exists>rp\<in>set (rolePermissions w). role_id rp = roleId \<and> permission_id rp = p_id p)
       (permissions w)
   \<and> getRolesForPermission w permissionId =
     filter (\<lambda>r. \<exists>rp\<in>set (rolePermissions w). permission_id rp = permissionId \<and> role_id rp = r_id r)
       (roles w)
   \<and> (\<forall>w'. permissions w' = permissions w \<and> rolePermissions w' = rolePermissions w \<longrightarrow>
          getPermissionsForRole w' roleId = getPermissionsForRole w roleId)
   \<and> (\<forall>w'. roles w' = roles w \<and> rolePermissions w' = rolePermissions w \<longrightarrow>
          getRolesForPermission w' permissionId = getRolesForPermission w permissionId)"
proof -
  have A: "\<And>p. (p_id p \<in> set (map permission_id (filter (\<lambda>rp. role_id rp = roleId) (rolePermissions w))))
      = (\<exists>rp\<in>set (rolePermissions w). role_id rp = roleId \<and> permission_id rp = p_id p)"
    by force
  have B: "\<And>r. (r_id r \<in> set (map role_id (filter (\<lambda>rp. permission_id rp = permissionId) (rolePermissions w))))
      = (\<exists>rp\<in>set (rolePermissions w). permission_id rp = permissionId \<and> role_id rp = r_id r)"
    by force
  have C: "getPermissionsForRole w roleId =
     filter (\<lambda>p. \<exists>rp\<in>set (rolePermissions w). role_id rp = roleId \<and> permission_id rp = p_id p)
       (permissions w)"
    by (simp only: getPermissionsForRole_def Let_def A)
  have D: "getRolesForPermission w permissionId =
     filter (\<lambda>r. \<exists>rp\<in>set (rolePermissions w). permission_id rp = permissionId \<and> role_id rp = r_id r)
       (roles w)"
    by (simp only: getRolesForPermission_def Let_def B)
  have E: "\<forall>w'. permissions w' = permissions w \<and> rolePermissions w' = rolePermissions w \<longrightarrow>
          getPermissionsForRole w' roleId = getPermissionsForRole w roleId"
    by (simp add: getPermissionsForRole_def)
  have F: "\<forall>w'. roles w' = roles w \<and> rolePermissions w' = rolePermissions w \<longrightarrow>
          getRolesForPermission w' permissionId = getRolesForPermission w permissionId"
    by (simp add: getRolesForPermission_def)
  from C D E F show ?thesis by blast
qed

theorem getPermissionsForRole_exact_witness:
  "getPermissionsForRole loaded ''r1'' = [perm_edit]
   \<and> getRolesForPermission loaded ''p2'' = [role_editor, role_viewer]
   \<and> getPermissionsForRole (issue Select_roles loaded) ''r1'' = [perm_edit]"
  using getPermissionsForRole_exact [of loaded "''r1''" "''p2''"]
  by (simp add: sample_defs)

subsection \<open>All or nothing\<close>

text \<open>
  C2. Each of the eight mutating operations, from every state: when the store answers
  the call with an error, the operation returns its failure value (\<open>null\<close>, here
  \<open>None\<close>, or \<open>false\<close>) and the three collections are what they were; when the
  store accepts the call, the operation returns the row (or \<open>true\<close>) and the
  collections are the reconciled ones: the row added and the collection sorted, the
  entry replaced and the collection sorted, the entry and its assignments filtered out,
  the assignment appended, or the pair filtered out.
\<close>

theorem mutations_all_or_nothing:
  "(\<forall>e. insert_permission sb n d = Inl e \<longrightarrow>
      fst (createPermission rt sb n d w) = None
      \<and> mirror (snd (createPermission rt sb n d w)) = mirror w)
   \<and> (\<forall>row. insert_permission sb n d = Inr row \<longrightarrow>
      fst (createPermission rt sb n d w) = Some row
      \<and> mirror (snd (createPermission rt sb n d w)) =
          (sort_js (\<lambda>a b. localeCompare rt (p_name a) (p_name b)) (permissions w @ [row]),
           roles w, rolePermissions w))
   \<and> (\<forall>e. update_permission sb i n d = Inl e \<longrightarrow>
      fst (updatePermission rt sb i n d w) = None
      \<and> mirror (snd (updatePermission rt sb i n d w)) = mirror w)
   \<and> (\<forall>row. update_permission sb i n d = Inr row \<longrightarrow>
      fst (updatePermission rt sb i n d w) = Some row
      \<and> mirror (snd (updatePermission rt sb i n d w)) =
          (sort_js (\<lambda>a b. localeCompare rt (p_name a) (p_name b))
             (map (\<lambda>p. if p_id p = i then row else p) (permissions w)),
           roles w, rolePermissions w))
   \<and> (\<forall>e. delete_permission sb i = Some e \<longrightarrow>
      fst (deletePermission sb i w) = False
      \<and> mirror (snd (deletePermission sb i w)) = mirror w)
   \<and> (delete_permission sb i = None \<longrightarrow>
      fst (deletePermission sb i w) = True
      \<and> mirror (snd (deletePermission sb i w)) =
          (filter (\<lambda>p. p_id p \<noteq> i) (permissions w), roles w,
           filter (\<lambda>rp. permission_id rp \<noteq> i) (rolePermissions w)))
   \<and> (\<forall>e. insert_role sb n d = Inl e \<longrightarrow>
      fst (createRole rt sb n d w) = None
      \<and> mirror (snd (createRole rt sb n d w)) = mirror w)
   \<and> (\<forall>row. insert_role sb n d = Inr row \<longrightarrow>
      fst (createRole rt sb n d w) = Some row
      \<and> mirror (snd (createRole rt sb n d w)) =
          (permissions w,
           sort_js (\<lambda>a b. localeCompare rt (r_name a) (r_name b)) (roles w @ [row]),
           rolePermissions w))
   \<and> (\<forall>e. update_role sb i n d = Inl e \<longrightarrow>
      fst (updateRole rt sb i n d w) = None
      \<and> mirror (snd (updateRole rt sb i n d w)) = mirror w)
   \<and> (\<forall>row. update_role sb i n d = Inr row \<longrightarrow>
      fst (updateRole rt sb i n d w) = Some row
      \<and> mirror (snd (updateRole rt sb i n d w)) =
          (permissions w,
           sort_js (\<lambda>a b. localeCompare rt (r_name a) (r_name b))
             (map (\<lambda>r. if r_id r = i then row else r) (roles w)),
           rolePermissions w))
   \<and> (\<forall>e. delete_role sb i = Some e \<longrightarrow>
      fst (deleteRole sb i w) = False
      \<and> mirror (snd (deleteRole sb i w)) = mirror w)
   \<and> (delete_role sb i = None \<longrightarrow>
      fst (deleteRole sb i w) = True
      \<and> mirror (snd (deleteRole sb i w)) =
          (permissions w, filter (\<lambda>r. r_id r \<noteq> i) (roles w),
           filter (\<lambda>rp. role_id rp \<noteq> i) (rolePermissions w)))
   \<and> (\<forall>e. insert_role_permission sb r p = Inl e \<longrightarrow>
      fst (assignPermissionToRole sb r p w) = None
      \<and> mirror (snd (assignPermissionToRole sb r p w)) = mirror w)
   \<and> (\<forall>row. insert_role_permission sb r p = Inr row \<longrightarrow>
      fst (assignPermissionToRole sb r p w) = Some row
      \<and> mirror (snd (assignPermissionToRole sb r p w)) =
          (permissions w, roles w, rolePermissions w @ [row]))
   \<and> (\<forall>e. delete_role_permission sb r p = Some e \<longrightarrow>
      fst (removePermissionFromRole sb r p w) = False
      \<and> mirror (snd (removePermissionFromRole sb r p w)) = mirror w)
   \<and> (delete_role_permission sb r p = None \<longrightarrow>
      fst (removePermissionFromRole sb r p w) = True
      \<and> mirror (snd (removePermissionFromRole sb r p w)) =
          (permissions w, roles w,
           filter (\<lambda>rp. \<not> (role_id rp = r \<and> permission_id rp = p)) (rolePermissions w)))"
  apply (intro conjI allI impI)
  apply (simp_all add: mirror_def createPermission_def updatePermission_def deletePermission_def
    createRole_def updateRole_def deleteRole_def assignPermissionToRole_def
    removePermissionFromRole_def Let_def)
  done

theorem mutations_all_or_nothing_witness:
  "insert_permission store_down ''can_view'' None = Inl \<lparr>err_message = ''Failed to fetch''\<rparr>
   \<and> fst (createPermission ascii_runtime store_down ''can_view'' None loaded) = None
   \<and> mirror (snd (createPermission ascii_runtime store_down ''can_view'' None loaded)) =
        mirror loaded
   \<and> delete_role store_ok ''r1'' = None
   \<and> fst (deleteRole store_ok ''r1'' loaded) = True
   \<and> mirror (snd (deleteRole store_ok ''r1'' loaded)) =
        ([perm_delete, perm_edit], [role_viewer], [link_viewer_edit])"
proof -
  have f: "insert_permission store_down ''can_view'' None = Inl \<lparr>err_message = ''Failed to fetch''\<rparr>"
    and s: "delete_role store_ok ''r1'' = None"
    by (simp_all add: store_answers)
  have l: "permissions loaded = [perm_delete, perm_edit]"
    "filter (\<lambda>r. r_id r \<noteq> ''r1'') (roles loaded) = [role_viewer]"
    "filter (\<lambda>rp. role_id rp \<noteq> ''r1'') (rolePermissions loaded) = [link_viewer_edit]"
    by (simp_all add: sample_defs)
  from mutations_all_or_nothing [where sb = store_down and n = "''can_view''" and d = None
      and rt = ascii_runtime and w = loaded]
  have "\<forall>e. insert_permission store_down ''can_view'' None = Inl e \<longrightarrow>
      fst (createPermission ascii_runtime store_down ''can_view'' None loaded) = None
      \<and> mirror (snd (createPermission ascii_runtime store_down ''can_view'' None loaded)) =
          mirror loaded"
    by (rule conjunct1)
  with f have a: "fst (createPermission ascii_runtime store_down ''can_view'' None loaded) = None"
    "mirror (snd (createPermission ascii_runtime store_down ''can_view'' None loaded)) =
          mirror loaded"
    by blast+
  from mutations_all_or_nothing [where sb = store_ok and i = "''r1''" and w = loaded]
  have "delete_role store_ok ''r1'' = None \<longrightarrow>
      fst (deleteRole store_ok ''r1'' loaded) = True
      \<and> mirror (snd (deleteRole store_ok ''r1'' loaded)) =
          (permissions loaded, filter (\<lambda>r. r_id r \<noteq> ''r1'') (roles loaded),
           filter (\<lambda>rp. role_id rp \<noteq> ''r1'') (rolePermissions loaded))"
    by blast
  with s l have b: "fst (deleteRole store_ok ''r1'' loaded) = True"
    "mirror (snd (deleteRole store_ok ''r1'' loaded)) =
        ([perm_delete, perm_edit], [role_viewer], [link_viewer_edit])"
    by simp_all
  from f s a b show ?thesis by blast
qed

subsection \<open>Refresh\<close>

text \<open>
  C3, as stated, fails: the claim has the failure of a refresh reported to the caller.
  \<open>fetchData\<close> catches the error and resolves as it does on success. From the sample
  mirror, a refresh whose read of the roles fails and a refresh that succeeds with the
  rows already held give their caller the same empty value and leave the same data in
  the object of the hook; the two differ in the toast only.
\<close>

theorem fetchData_failure_unseen_counterexample:
  "isl (select_roles store_roles_down)
   \<and> \<not> isl (select_permissions store_unchanged)
   \<and> \<not> isl (select_roles store_unchanged)
   \<and> \<not> isl (select_role_permissions store_unchanged)
   \<and> fst (fetchData (Some ()) store_roles_down loaded) =
       fst (fetchData (Some ()) store_unchanged loaded)
   \<and> exposed (snd (fetchData (Some ()) store_roles_down loaded)) =
       exposed (snd (fetchData (Some ()) store_unchanged loaded))"
  by (simp add: exposed_def fetchData_mirror store_reads loaded_def)

text \<open>
  C3, amended. With a user signed in, when any of the three reads of \<open>fetchData\<close>
  comes back with an error, the body of the \<open>try\<close> throws before any collection is
  set, from whatever state: the three collections are what they were, none replaced.
  The failure is not handed to the caller: the call resolves with no value, as on
  success, and the hook shows the collections it had with \<open>loading\<close> false. It is told
  to the user by one destructive toast titled "Error loading data", after the three
  reads have been issued.
\<close>

theorem fetchData_failure_toast_only:
  assumes "isl (select_permissions sb) \<or> isl (select_roles sb) \<or> isl (select_role_permissions sb)"
  shows "fst (fetchData (Some u) sb w) = ()
   \<and> mirror (snd (fetchData (Some u) sb w)) = mirror w
   \<and> exposed (snd (fetchData (Some u) sb w)) =
        (permissions w, roles w, rolePermissions w, False)
   \<and> toasts (snd (fetchData (Some u) sb w)) =
        toasts w @ [\<lparr>t_title = ''Error loading data'',
          t_description = ''Could not load roles and permissions. Please try again.'',
          t_variant = Destructive\<rparr>]
   \<and> requests (snd (fetchData (Some u) sb w)) =
        requests w @ [Select_permissions, Select_roles, Select_role_permissions]
   \<and> (\<forall>w'. isl (fetch_body sb w'))"
proof -
  have thrown: "\<forall>w'. isl (fetch_body sb w')"
    using assms by (auto simp: fetch_body_def split: sum.splits)
  then have "isl (fetch_body sb (issue Select_role_permissions
                      (issue Select_roles (issue Select_permissions (w\<lparr>loading := True\<rparr>)))))"
    by blast
  then obtain e where "fetch_body sb (issue Select_role_permissions
                      (issue Select_roles (issue Select_permissions (w\<lparr>loading := True\<rparr>)))) = Inl e"
    by (auto simp: isl_def)
  then show ?thesis
    using thrown by (simp add: fetchData_def Let_def mirror_def exposed_def)
qed

theorem fetchData_failure_toast_only_witness:
  "isl (select_roles store_roles_down)
   \<and> mirror (snd (fetchData (Some ()) store_roles_down loaded)) =
       ([perm_delete, perm_edit], [role_editor, role_viewer],
        [link_editor_edit, link_viewer_edit])
   \<and> map t_title (toasts (snd (fetchData (Some ()) store_roles_down loaded))) =
       [''Error loading data'']"
proof -
  have r: "isl (select_roles store_roles_down)"
    by (simp add: store_reads)
  then have h: "isl (select_permissions store_roles_down) \<or> isl (select_roles store_roles_down)
     \<or> isl (select_role_permissions store_roles_down)"
    by simp
  have l: "mirror loaded = ([perm_delete, perm_edit], [role_editor, role_viewer],
      [link_editor_edit, link_viewer_edit])"
    "toasts loaded = []"
    by (simp_all add: loaded_def mirror_def)
  from fetchData_failure_toast_only [OF h, of "()" loaded]
  have "mirror (snd (fetchData (Some ()) store_roles_down loaded)) = mirror loaded"
    "toasts (snd (fetchData (Some ()) store_roles_down loaded)) =
        toasts loaded @ [\<lparr>t_title = ''Error loading data'',
          t_description = ''Could not load roles and permissions. Please try again.'',
          t_variant = Destructive\<rparr>]"
    by blast+
  with l r show ?thesis by simp
qed

subsection \<open>Ordering\<close>

text \<open>
  C4, as stated, fails: the claim has the collections sorted under case-sensitive
  lexical compare. The code sorts with \<open>localeCompare\<close>, which compares letters without
  their case first. From the first render, creating \<open>beta\<close> and then \<open>Zeta\<close> leaves
  the mirror as \<open>beta\<close>, \<open>Zeta\<close>, and by character code \<open>Zeta\<close> comes before
  \<open>beta\<close>.
\<close>

theorem mirror_not_lexically_sorted_counterexample:
  "plain_name ''beta'' \<and> plain_name ''Zeta''
   \<and> map p_name (permissions (run ascii_runtime
        [(store_ok, CreatePermission ''beta'' None),
         (store_ok, CreatePermission ''Zeta'' None)] initial)) = [''beta'', ''Zeta'']
   \<and> code_compare ''Zeta'' ''beta'' = - 1
   \<and> \<not> lexically_sorted [''beta'', ''Zeta'']"
proof -
  have "plain_name ''beta''" "plain_name ''Zeta''"
    by (simp_all add: plain_name_def)
  moreover have "map p_name (permissions (run ascii_runtime
        [(store_ok, CreatePermission ''beta'' None),
         (store_ok, CreatePermission ''Zeta'' None)] initial)) = [''beta'', ''Zeta'']"
    by (simp add: mirror_after store_answers sort_js_def ascii_runtime_def initial_def
        locale_compare_def primary_weight_def case_weight_def)
  moreover have "code_compare ''Zeta'' ''beta'' = - 1"
    by (simp add: code_compare_def)
  moreover have "\<not> lexically_sorted [''beta'', ''Zeta'']"
    by (simp add: lexically_sorted_def code_compare_def)
  ultimately show ?thesis by blast
qed

text \<open>
  C4, amended. The order is that of the comparator the code sorts with,
  \<open>localeCompare\<close> on the names, whatever total and transitive comparison the runtime
  gives it. The Permission collection is in that order after every successful
  \<open>createPermission\<close> and \<open>updatePermission\<close>, whatever it was before, and so is the
  Role collection after \<open>createRole\<close> and \<open>updateRole\<close>. A delete filters and a
  refresh installs what the store sends, so a session of calls, refreshes among them,
  keeps each collection ordered once it is, and every state it reaches from the first
  render is ordered, when every refresh is answered with rows in that order.
\<close>

theorem mirror_sorted_by_localeCompare:
  assumes "consistent (localeCompare rt)"
  shows "(\<forall>row. insert_permission sb n d = Inr row \<longrightarrow>
            permissions_sorted rt (snd (createPermission rt sb n d w)))
   \<and> (\<forall>row. update_permission sb i n d = Inr row \<longrightarrow>
            permissions_sorted rt (snd (updatePermission rt sb i n d w)))
   \<and> (\<forall>row. insert_role sb n d = Inr row \<longrightarrow> roles_sorted rt (snd (createRole rt sb n d w)))
   \<and> (\<forall>row. update_role sb i n d = Inr row \<longrightarrow> roles_sorted rt (snd (updateRole rt sb i n d w)))
   \<and> (orderly rt calls \<and> permissions_sorted rt w \<longrightarrow> permissions_sorted rt (run rt calls w))
   \<and> (orderly rt calls \<and> roles_sorted rt w \<longrightarrow> roles_sorted rt (run rt calls w))
   \<and> (orderly rt calls \<longrightarrow>
        permissions_sorted rt (run rt calls initial) \<and> roles_sorted rt (run rt calls initial))"
proof (intro conjI allI impI)
  fix row
  assume "insert_permission sb n d = Inr row"
  then show "permissions_sorted rt (snd (createPermission rt sb n d w))"
    using assms by (simp add: createPermission_mirror permissions_sorted_def sorted_sort_js_key)
next
  fix row
  assume "update_permission sb i n d = Inr row"
  then show "permissions_sorted rt (snd (updatePermission rt sb i n d w))"
    using assms by (simp add: updatePermission_mirror permissions_sorted_def sorted_sort_js_key)
next
  fix row
  assume "insert_role sb n d = Inr row"
  then show "roles_sorted rt (snd (createRole rt sb n d w))"
    using assms by (simp add: createRole_mirror roles_sorted_def sorted_sort_js_key)
next
  fix row
  assume "update_role sb i n d = Inr row"
  then show "roles_sorted rt (snd (updateRole rt sb i n d w))"
    using assms by (simp add: updateRole_mirror roles_sorted_def sorted_sort_js_key)
next
  assume "orderly rt calls \<and> permissions_sorted rt w"
  with assms show "permissions_sorted rt (run rt calls w)"
    by (simp add: run_permissions_sorted)
next
  assume "orderly rt calls \<and> roles_sorted rt w"
  with assms show "roles_sorted rt (run rt calls w)"
    by (simp add: run_roles_sorted)
next
  assume o: "orderly rt calls"
  have "permissions_sorted rt initial" by (simp add: permissions_sorted_def initial_def)
  with assms o show "permissions_sorted rt (run rt calls initial)"
    by (rule run_permissions_sorted)
  have "roles_sorted rt initial" by (simp add: roles_sorted_def initial_def)
  with assms o show "roles_sorted rt (run rt calls initial)"
    by (rule run_roles_sorted)
qed

theorem mirror_sorted_by_localeCompare_witness:
  "consistent (localeCompare ascii_runtime)
   \<and> permissions_sorted ascii_runtime
        (snd (createPermission ascii_runtime store_ok ''Can_edit'' None loaded))
   \<and> map p_name (permissions
        (snd (createPermission ascii_runtime store_ok ''Can_edit'' None loaded))) =
        [''can_delete'', ''can_edit'', ''Can_edit'']
   \<and> orderly ascii_runtime
        [(store_unchanged, Refresh), (store_ok, CreatePermission ''Can_edit'' None),
         (store_down, CreatePermission ''omega'' None), (store_ok, DeletePermission ''p1'')]
   \<and> permissions_sorted ascii_runtime
        (run ascii_runtime
           [(store_unchanged, Refresh), (store_ok, CreatePermission ''Can_edit'' None),
            (store_down, CreatePermission ''omega'' None),
            (store_ok, DeletePermission ''p1'')] initial)
   \<and> map p_name (permissions
        (run ascii_runtime
           [(store_unchanged, Refresh), (store_ok, CreatePermission ''Can_edit'' None),
            (store_down, CreatePermission ''omega'' None),
            (store_ok, DeletePermission ''p1'')] initial)) = [''can_edit'', ''Can_edit'']"
proof -
  let ?session = "[(store_unchanged, Refresh), (store_ok, CreatePermission ''Can_edit'' None),
         (store_down, CreatePermission ''omega'' None), (store_ok, DeletePermission ''p1'')]"
  have c: "consistent (localeCompare ascii_runtime)"
    by (simp add: ascii_runtime_def locale_compare_consistent)
  have i: "insert_permission store_ok ''Can_edit'' None =
      Inr \<lparr>p_id = ''p9'', p_name = ''Can_edit'', p_description = None,
        p_created_at = ''2024-02-01''\<rparr>"
    by (simp add: store_answers)
  have o: "orderly ascii_runtime ?session"
    by (simp add: answers_ordered_def store_reads ascii_runtime_def locale_compare_def
        primary_weight_def case_weight_def sample_defs)
  have n1: "map p_name (permissions
        (snd (createPermission ascii_runtime store_ok ''Can_edit'' None loaded))) =
        [''can_delete'', ''can_edit'', ''Can_edit'']"
    by (simp add: createPermission_mirror i sort_js_def ascii_runtime_def sample_defs
        locale_compare_def primary_weight_def case_weight_def)
  have n2: "map p_name (permissions (run ascii_runtime ?session initial)) =
      [''can_edit'', ''Can_edit'']"
    by (simp add: mirror_after fetchData_mirror store_reads store_answers sort_js_def
        ascii_runtime_def sample_defs locale_compare_def primary_weight_def case_weight_def)
  note t = mirror_sorted_by_localeCompare [OF c, where sb = store_ok and n = "''Can_edit''"
      and d = None and w = loaded and calls = ?session]
  from t i have s1: "permissions_sorted ascii_runtime
        (snd (createPermission ascii_runtime store_ok ''Can_edit'' None loaded))"
    by blast
  from t o have s2: "permissions_sorted ascii_runtime (run ascii_runtime ?session initial)"
    by blast
  from c s1 n1 o s2 n2 show ?thesis by blast
qed

subsection \<open>Assigning a permission\<close>

text \<open>
  C5, as stated, fails: the claim has \<open>assignPermissionToRole\<close> return to its caller
  a result that tells a rejected repeated pair from any other remote failure. The
  operation returns \<open>null\<close> for both, and the dispatcher, its caller, answers both
  with the same message. Here a store that rejects the pair as a duplicate and a store
  that cannot be reached give the same results.
\<close>

theorem assign_duplicate_same_result_counterexample:
  "insert_role_permission store_duplicate ''r1'' ''p2'' =
     Inl \<lparr>err_message = ''duplicate key value violates unique constraint''\<rparr>
   \<and> insert_role_permission store_down ''r1'' ''p2'' = Inl \<lparr>err_message = ''Failed to fetch''\<rparr>
   \<and> fst (assignPermissionToRole store_duplicate ''r1'' ''p2'' loaded) = None
   \<and> fst (assignPermissionToRole store_down ''r1'' ''p2'' loaded) = None
   \<and> fst (executeAction ascii_runtime store_duplicate
          (link_action ''assign_permission'' ''Editor'' ''can_edit'') loaded) =
       \<lparr>success = False,
         message = ''Failed to assign permission. It may already be assigned.''\<rparr>
   \<and> fst (executeAction ascii_runtime store_down
          (link_action ''assign_permission'' ''Editor'' ''can_edit'') loaded) =
       \<lparr>success = False,
         message = ''Failed to assign permission. It may already be assigned.''\<rparr>"
proof -
  let ?a = "link_action ''assign_permission'' ''Editor'' ''can_edit''"
  have ids: "r_id role_editor = ''r1''" "p_id perm_edit = ''p2''"
    by (simp_all add: role_editor_def perm_edit_def)
  have "\<And>sb. executeAction ascii_runtime sb ?a loaded =
     ((case fst (assignPermissionToRole sb ''r1'' ''p2'' loaded) of
         Some row \<Rightarrow>
           succeeded (''Permission '' @ quoted (p_name perm_edit) @ '' assigned to ''
             @ quoted (r_name role_editor) @ '' successfully!'')
       | None \<Rightarrow> failure ''Failed to assign permission. It may already be assigned.''),
      snd (assignPermissionToRole sb ''r1'' ''p2'' loaded))"
    using executeAction_assign_found [of ?a "''Editor''" "''can_edit''" ascii_runtime loaded
        role_editor perm_edit]
    by (simp add: link_action_fields lower_samples ids)
  then show ?thesis
    by (simp add: store_answers assign_results failure_def)
qed

text \<open>
  C5, amended. When the store answers \<open>assignPermissionToRole\<close> with an error, of
  whatever kind, the operation returns \<open>null\<close> and the three collections are what they
  were; the kind of failure shows only in the toast of the hook: "Already assigned" when
  the message of the error contains \<open>duplicate\<close>, "Error assigning permission" with the
  store's message otherwise. After a successful call on a mirror without the pair, a
  second identical call that the store rejects returns \<open>null\<close> and the mirror holds
  exactly one assignment for the pair, the row of the first call.
\<close>

theorem assign_failure_told_by_toast:
  "(\<forall>e. insert_role_permission sb r p = Inl e \<longrightarrow>
      fst (assignPermissionToRole sb r p w) = None
      \<and> mirror (snd (assignPermissionToRole sb r p w)) = mirror w
      \<and> toasts (snd (assignPermissionToRole sb r p w)) =
          toasts w @
          [if includes_js (err_message e) ''duplicate''
           then \<lparr>t_title = ''Already assigned'',
                  t_description = ''This permission is already assigned to the role.'',
                  t_variant = Destructive\<rparr>
           else \<lparr>t_title = ''Error assigning permission'', t_description = err_message e,
                  t_variant = Destructive\<rparr>])
   \<and> (\<forall>row e. \<not> (\<exists>rp\<in>set (rolePermissions w). role_id rp = r \<and> permission_id rp = p)
        \<and> insert_role_permission sb r p = Inr row \<and> role_id row = r \<and> permission_id row = p
        \<and> insert_role_permission sb' r p = Inl e \<longrightarrow>
        fst (assignPermissionToRole sb' r p (snd (assignPermissionToRole sb r p w))) = None
        \<and> filter (\<lambda>rp. role_id rp = r \<and> permission_id rp = p)
            (rolePermissions
               (snd (assignPermissionToRole sb' r p (snd (assignPermissionToRole sb r p w))))) =
           [row])"
proof (intro conjI allI impI)
  fix e
  assume e: "insert_role_permission sb r p = Inl e"
  then show "fst (assignPermissionToRole sb r p w) = None"
    by (simp add: assign_results)
  from e show "mirror (snd (assignPermissionToRole sb r p w)) = mirror w"
    by (simp add: mirror_def assignPermissionToRole_mirror)
  from e show "toasts (snd (assignPermissionToRole sb r p w)) =
          toasts w @
          [if includes_js (err_message e) ''duplicate''
           then \<lparr>t_title = ''Already assigned'',
                  t_description = ''This permission is already assigned to the role.'',
                  t_variant = Destructive\<rparr>
           else \<lparr>t_title = ''Error assigning permission'', t_description = err_message e,
                  t_variant = Destructive\<rparr>]"
    by (simp add: assignPermissionToRole_def Let_def)
next
  fix row e
  assume a: "\<not> (\<exists>rp\<in>set (rolePermissions w). role_id rp = r \<and> permission_id rp = p)
        \<and> insert_role_permission sb r p = Inr row \<and> role_id row = r \<and> permission_id row = p
        \<and> insert_role_permission sb' r p = Inl e"
  then show "fst (assignPermissionToRole sb' r p (snd (assignPermissionToRole sb r p w))) = None"
    by (simp add: assign_results)
  from a have "filter (\<lambda>rp. role_id rp = r \<and> permission_id rp = p) (rolePermissions w) = []"
    by (auto simp: filter_empty_conv)
  with a show "filter (\<lambda>rp. role_id rp = r \<and> permission_id rp = p)
            (rolePermissions
               (snd (assignPermissionToRole sb' r p (snd (assignPermissionToRole sb r p w))))) =
           [row]"
    by (simp add: assignPermissionToRole_mirror)
qed

theorem assign_failure_told_by_toast_witness:
  "insert_role_permission store_duplicate ''r2'' ''p1'' =
     Inl \<lparr>err_message = ''duplicate key value violates unique constraint''\<rparr>
   \<and> map t_title (toasts (snd (assignPermissionToRole store_duplicate ''r2'' ''p1'' loaded))) =
       [''Already assigned'']
   \<and> mirror (snd (assignPermissionToRole store_duplicate ''r2'' ''p1'' loaded)) = mirror loaded
   \<and> \<not> (\<exists>rp\<in>set (rolePermissions loaded). role_id rp = ''r2'' \<and> permission_id rp = ''p1'')
   \<and> filter (\<lambda>rp. role_id rp = ''r2'' \<and> permission_id rp = ''p1'')
        (rolePermissions (snd (assignPermissionToRole store_duplicate ''r2'' ''p1''
           (snd (assignPermissionToRole store_ok ''r2'' ''p1'' loaded))))) =
       [\<lparr>rp_id = ''l9'', role_id = ''r2'', permission_id = ''p1'',
          rp_created_at = ''2024-02-01''\<rparr>]"
proof -
  let ?e = "\<lparr>err_message = ''duplicate key value violates unique constraint''\<rparr>"
  let ?row = "\<lparr>rp_id = ''l9'', role_id = ''r2'', permission_id = ''p1'',
          rp_created_at = ''2024-02-01''\<rparr>"
  have d: "insert_role_permission store_duplicate ''r2'' ''p1'' = Inl ?e"
    and k: "insert_role_permission store_ok ''r2'' ''p1'' = Inr ?row"
    by (simp_all add: store_answers)
  have absent: "\<not> (\<exists>rp\<in>set (rolePermissions loaded). role_id rp = ''r2'' \<and> permission_id rp = ''p1'')"
    by (simp add: sample_defs)
  have dup: "includes_js (err_message ?e) ''duplicate''"
    by simp
  have t: "toasts loaded = []"
    by (simp add: loaded_def)
  note thm1 = assign_failure_told_by_toast [where sb = store_duplicate and r = "''r2''"
      and p = "''p1''" and w = loaded and sb' = store_duplicate]
  note thm2 = assign_failure_told_by_toast [where sb = store_ok and r = "''r2''"
      and p = "''p1''" and w = loaded and sb' = store_duplicate]
  from thm1 d have
    "mirror (snd (assignPermissionToRole store_duplicate ''r2'' ''p1'' loaded)) = mirror loaded"
    "toasts (snd (assignPermissionToRole store_duplicate ''r2'' ''p1'' loaded)) =
       toasts loaded @
          [if includes_js (err_message ?e) ''duplicate''
           then \<lparr>t_title = ''Already assigned'',
                  t_description = ''This permission is already assigned to the role.'',
                  t_variant = Destructive\<rparr>
           else \<lparr>t_title = ''Error assigning permission'', t_description = err_message ?e,
                  t_variant = Destructive\<rparr>]"
    by blast+
  with dup t have a: 
    "mirror (snd (assignPermissionToRole store_duplicate ''r2'' ''p1'' loaded)) = mirror loaded"
    "map t_title (toasts (snd (assignPermissionToRole store_duplicate ''r2'' ''p1'' loaded))) =
       [''Already assigned'']"
    by simp_all
  have r: "role_id ?row = ''r2'' \<and> permission_id ?row = ''p1''" by simp
  from thm2 absent k r d have b: "filter (\<lambda>rp. role_id rp = ''r2'' \<and> permission_id rp = ''p1'')
        (rolePermissions (snd (assignPermissionToRole store_duplicate ''r2'' ''p1''
           (snd (assignPermissionToRole store_ok ''r2'' ''p1'' loaded))))) = [?row]"
    by blast
  from d a absent b show ?thesis by blast
qed


subsection \<open>Creating a permission with a blank name\<close>

text \<open>
  C6, as stated, fails: \<open>createPermission\<close> has no check of its \<open>name\<close>. With the
  empty name, and with a name of two spaces, the insert is issued and, the store accepting
  it, the row enters the mirror.
\<close>

theorem createPermission_blank_name_counterexample:
  "fst (createPermission ascii_runtime store_ok [] None initial) =
     Some \<lparr>p_id = ''p9'', p_name = [], p_description = None, p_created_at = ''2024-02-01''\<rparr>
   \<and> requests (snd (createPermission ascii_runtime store_ok [] None initial)) =
     [Insert_permission [] None]
   \<and> permissions (snd (createPermission ascii_runtime store_ok [] None initial)) =
     [\<lparr>p_id = ''p9'', p_name = [], p_description = None, p_created_at = ''2024-02-01''\<rparr>]
   \<and> requests (snd (createPermission ascii_runtime store_ok ''  '' None initial)) =
     [Insert_permission ''  '' None]
   \<and> permissions (snd (createPermission ascii_runtime store_ok ''  '' None initial)) =
     [\<lparr>p_id = ''p9'', p_name = ''  '', p_description = None, p_created_at = ''2024-02-01''\<rparr>]"
  by (simp add: createPermission_def Let_def store_answers issue_def show_toast_def initial_def
      sort_js_def)

text \<open>
  C6, amended. \<open>createPermission\<close> issues the remote insert with the name and the
  description it was given, whatever the name; the row enters the mirror, in order, when
  the store accepts it, and the mirror stays as it was when the store answers with an
  error. An absent or empty name is stopped one level up: the \<open>create_permission\<close>
  branch of the dispatcher fails with "Permission name is required" without calling the
  hook, so no call is issued and the state is untouched.
\<close>

theorem createPermission_does_not_validate:
  "requests (snd (createPermission rt sb n d w)) = requests w @ [Insert_permission n d]
   \<and> (\<forall>row. insert_permission sb n d = Inr row \<longrightarrow>
        fst (createPermission rt sb n d w) = Some row
        \<and> permissions (snd (createPermission rt sb n d w)) =
            sort_js (\<lambda>a b. localeCompare rt (p_name a) (p_name b)) (permissions w @ [row]))
   \<and> (\<forall>e. insert_permission sb n d = Inl e \<longrightarrow>
        fst (createPermission rt sb n d w) = None
        \<and> mirror (snd (createPermission rt sb n d w)) = mirror w)
   \<and> (ai_action response = ''create_permission''
        \<and> truthy_field d_name (ai_data response) = None \<longrightarrow>
        executeAction rt sb response w =
          (\<lparr>success = False, message = ''Permission name is required''\<rparr>, w))"
proof (intro conjI allI impI)
  show "requests (snd (createPermission rt sb n d w)) = requests w @ [Insert_permission n d]"
    by (rule requests_after)
next
  fix row
  assume "insert_permission sb n d = Inr row"
  then show "fst (createPermission rt sb n d w) = Some row"
    and "permissions (snd (createPermission rt sb n d w)) =
            sort_js (\<lambda>a b. localeCompare rt (p_name a) (p_name b)) (permissions w @ [row])"
    by (simp_all add: createPermission_def Let_def)
next
  fix e
  assume "insert_permission sb n d = Inl e"
  then show "fst (createPermission rt sb n d w) = None"
    and "mirror (snd (createPermission rt sb n d w)) = mirror w"
    by (simp_all add: createPermission_def Let_def mirror_def)
next
  assume "ai_action response = ''create_permission''
        \<and> truthy_field d_name (ai_data response) = None"
  then show "executeAction rt sb response w =
          (\<lparr>success = False, message = ''Permission name is required''\<rparr>, w)"
    by (simp add: executeAction_create_permission failure_def)
qed

theorem createPermission_does_not_validate_witness:
  "insert_permission store_ok [] None =
     Inr \<lparr>p_id = ''p9'', p_name = [], p_description = None, p_created_at = ''2024-02-01''\<rparr>
   \<and> fst (createPermission ascii_runtime store_ok [] None initial) =
     Some \<lparr>p_id = ''p9'', p_name = [], p_description = None, p_created_at = ''2024-02-01''\<rparr>
   \<and> requests (snd (createPermission ascii_runtime store_ok [] None initial)) =
     [Insert_permission [] None]
   \<and> ai_action (create_action ''create_permission'' []) = ''create_permission''
   \<and> truthy_field d_name (ai_data (create_action ''create_permission'' [])) = None
   \<and> executeAction ascii_runtime store_ok (create_action ''create_permission'' []) loaded =
       (\<lparr>success = False, message = ''Permission name is required''\<rparr>, loaded)"
proof -
  let ?row = "\<lparr>p_id = ''p9'', p_name = [], p_description = None,
     p_created_at = ''2024-02-01''\<rparr>"
  have k: "insert_permission store_ok [] None = Inr ?row"
    by (simp add: store_answers)
  have a: "ai_action (create_action ''create_permission'' []) = ''create_permission''"
    "truthy_field d_name (ai_data (create_action ''create_permission'' [])) = None"
    by (simp_all add: create_action_fields)
  have q: "requests initial = []"
    by (simp add: initial_def)
  note t1 = createPermission_does_not_validate [where rt = ascii_runtime and sb = store_ok
      and n = "[]" and d = None and w = initial
      and response = "create_action ''create_permission'' []"]
  note t2 = createPermission_does_not_validate [where rt = ascii_runtime and sb = store_ok
      and w = loaded and response = "create_action ''create_permission'' []"]
  from t1 k have b: "fst (createPermission ascii_runtime store_ok [] None initial) = Some ?row"
    by blast
  from t1 q have c: "requests (snd (createPermission ascii_runtime store_ok [] None initial)) =
     [Insert_permission [] None]"
    by simp
  from t2 a have d: "executeAction ascii_runtime store_ok
      (create_action ''create_permission'' []) loaded =
       (\<lparr>success = False, message = ''Permission name is required''\<rparr>, loaded)"
    by blast
  from k a b c d show ?thesis by blast
qed

subsection \<open>Removing an assignment\<close>

text \<open>
  C8. When the mirror holds no assignment for the pair and the store reports no error for
  the delete, \<open>removePermissionFromRole\<close> returns \<open>true\<close> and the three
  collections are what they were. Whenever the store reports no error, the call returns
  \<open>true\<close>, permissions and roles stay, the assignment collection is filtered of the
  entries with that pair and none with the pair is left; a second such call changes
  nothing more. Whatever the store answers, a mirror without the pair is left as it was,
  and the value returned is \<open>true\<close> exactly when the store reports no error: it does
  not depend on whether the mirror held the pair.
\<close>

theorem remove_absent_is_noop:
  "(delete_role_permission sb r p = None
      \<and> \<not> (\<exists>rp\<in>set (rolePermissions w). role_id rp = r \<and> permission_id rp = p) \<longrightarrow>
      fst (removePermissionFromRole sb r p w) = True
      \<and> mirror (snd (removePermissionFromRole sb r p w)) = mirror w)
   \<and> (delete_role_permission sb r p = None \<longrightarrow>
      fst (removePermissionFromRole sb r p w) = True
      \<and> permissions (snd (removePermissionFromRole sb r p w)) = permissions w
      \<and> roles (snd (removePermissionFromRole sb r p w)) = roles w
      \<and> rolePermissions (snd (removePermissionFromRole sb r p w)) =
          filter (\<lambda>rp. \<not> (role_id rp = r \<and> permission_id rp = p)) (rolePermissions w)
      \<and> \<not> (\<exists>rp\<in>set (rolePermissions (snd (removePermissionFromRole sb r p w))).
            role_id rp = r \<and> permission_id rp = p)
      \<and> (delete_role_permission sb' r p = None \<longrightarrow>
            fst (removePermissionFromRole sb' r p (snd (removePermissionFromRole sb r p w))) = True
            \<and> mirror (snd (removePermissionFromRole sb' r p
                 (snd (removePermissionFromRole sb r p w)))) =
               mirror (snd (removePermissionFromRole sb r p w))))
   \<and> (\<not> (\<exists>rp\<in>set (rolePermissions w). role_id rp = r \<and> permission_id rp = p) \<longrightarrow>
      mirror (snd (removePermissionFromRole sb r p w)) = mirror w)
   \<and> fst (removePermissionFromRole sb r p w) = (delete_role_permission sb r p = None)"
proof (intro conjI impI)
  assume "\<not> (\<exists>rp\<in>set (rolePermissions w). role_id rp = r \<and> permission_id rp = p)"
  then have "filter (\<lambda>rp. \<not> (role_id rp = r \<and> permission_id rp = p)) (rolePermissions w)
      = rolePermissions w"
    by (auto intro: filter_True)
  then show "mirror (snd (removePermissionFromRole sb r p w)) = mirror w"
    by (simp add: mirror_def removePermissionFromRole_mirror split: option.splits)
next
  show "fst (removePermissionFromRole sb r p w) = (delete_role_permission sb r p = None)"
    by (simp add: removePermissionFromRole_def Let_def split: option.splits)
next
  assume a: "delete_role_permission sb r p = None
      \<and> \<not> (\<exists>rp\<in>set (rolePermissions w). role_id rp = r \<and> permission_id rp = p)"
  then show "fst (removePermissionFromRole sb r p w) = True"
    by (simp add: removePermissionFromRole_def Let_def)
  from a have "filter (\<lambda>rp. \<not> (role_id rp = r \<and> permission_id rp = p)) (rolePermissions w)
      = rolePermissions w"
    by (auto intro: filter_True)
  with a show "mirror (snd (removePermissionFromRole sb r p w)) = mirror w"
    by (simp add: mirror_def removePermissionFromRole_mirror)
next
  assume ok: "delete_role_permission sb r p = None"
  let ?w = "snd (removePermissionFromRole sb r p w)"
  show "fst (removePermissionFromRole sb r p w) = True"
    using ok by (simp add: removePermissionFromRole_def Let_def)
  show "permissions ?w = permissions w" "roles ?w = roles w"
    by (simp_all add: removePermissionFromRole_mirror)
  show L: "rolePermissions ?w =
      filter (\<lambda>rp. \<not> (role_id rp = r \<and> permission_id rp = p)) (rolePermissions w)"
    using ok by (simp add: removePermissionFromRole_mirror)
  show "\<not> (\<exists>rp\<in>set (rolePermissions ?w). role_id rp = r \<and> permission_id rp = p)"
    by (simp add: L)
  assume ok': "delete_role_permission sb' r p = None"
  show "fst (removePermissionFromRole sb' r p ?w) = True"
    using ok' by (simp add: removePermissionFromRole_def Let_def)
  show "mirror (snd (removePermissionFromRole sb' r p ?w)) = mirror ?w"
    using ok ok' by (simp add: mirror_def removePermissionFromRole_mirror conj_commute)
qed

theorem remove_absent_is_noop_witness:
  "delete_role_permission store_ok ''r2'' ''p1'' = None
   \<and> \<not> (\<exists>rp\<in>set (rolePermissions loaded). role_id rp = ''r2'' \<and> permission_id rp = ''p1'')
   \<and> fst (removePermissionFromRole store_ok ''r2'' ''p1'' loaded) = True
   \<and> mirror (snd (removePermissionFromRole store_ok ''r2'' ''p1'' loaded)) = mirror loaded
   \<and> delete_role_permission store_ok ''r2'' ''p2'' = None
   \<and> rolePermissions (snd (removePermissionFromRole store_ok ''r2'' ''p2'' loaded)) =
        [link_editor_edit]"
proof -
  have ok: "delete_role_permission store_ok ''r2'' ''p1'' = None"
    "delete_role_permission store_ok ''r2'' ''p2'' = None"
    by (simp_all add: store_answers)
  have absent: "\<not> (\<exists>rp\<in>set (rolePermissions loaded). role_id rp = ''r2'' \<and> permission_id rp = ''p1'')"
    by (simp add: sample_defs)
  have f: "filter (\<lambda>rp. \<not> (role_id rp = ''r2'' \<and> permission_id rp = ''p2'')) (rolePermissions loaded)
      = [link_editor_edit]"
    by (simp add: sample_defs)
  from remove_absent_is_noop [of store_ok "''r2''" "''p1''" loaded] ok(1) absent
  have a: "fst (removePermissionFromRole store_ok ''r2'' ''p1'' loaded) = True"
    "mirror (snd (removePermissionFromRole store_ok ''r2'' ''p1'' loaded)) = mirror loaded"
    by blast+
  from remove_absent_is_noop [of store_ok "''r2''" "''p2''" loaded] ok(2)
  have "rolePermissions (snd (removePermissionFromRole store_ok ''r2'' ''p2'' loaded)) =
      filter (\<lambda>rp. \<not> (role_id rp = ''r2'' \<and> permission_id rp = ''p2'')) (rolePermissions loaded)"
    by blast
  with f have b: "rolePermissions (snd (removePermissionFromRole store_ok ''r2'' ''p2'' loaded)) =
        [link_editor_edit]"
    by simp
  from ok absent a b show ?thesis by blast
qed

subsection \<open>The dispatcher\<close>

text \<open>
  C10. An action whose name is none of \<open>create_permission\<close>, \<open>create_role\<close>,
  \<open>assign_permission\<close>, \<open>remove_permission\<close>, \<open>info\<close> and \<open>error\<close> takes the
  \<open>default\<close> branch: \<open>executeAction\<close> answers success with the message of the
  response as it is, and the state, its collections and the list of calls issued
  included, is untouched.
\<close>

theorem unknown_action_is_info:
  assumes "ai_action response \<notin> {''create_permission'', ''create_role'', ''assign_permission'',
     ''remove_permission'', ''info'', ''error''}"
  shows "executeAction rt sb response w =
     (\<lparr>success = True, message = ai_message response\<rparr>, w)"
  using assms by (simp add: executeAction_def Let_def succeeded_def)

theorem unknown_action_is_info_witness:
  "ai_action unknown_action \<notin> {''create_permission'', ''create_role'', ''assign_permission'',
     ''remove_permission'', ''info'', ''error''}
   \<and> executeAction ascii_runtime store_ok unknown_action loaded =
       (\<lparr>success = True, message = ''Deleting the role Viewer.''\<rparr>, loaded)"
proof -
  have h: "ai_action unknown_action \<notin> {''create_permission'', ''create_role'',
     ''assign_permission'', ''remove_permission'', ''info'', ''error''}"
    by (simp add: unknown_action_def)
  have m: "ai_message unknown_action = ''Deleting the role Viewer.''"
    by (simp add: unknown_action_def)
  from unknown_action_is_info [OF h, of ascii_runtime store_ok loaded] h m
  show ?thesis by simp
qed

text \<open>
  C9, as stated, fails for an action that carries an empty name: the empty role name
  matches no role of the mirror (the lower-cased names there are \<open>editor\<close> and
  \<open>viewer\<close>), and the dispatcher answers "Both role name and permission name are
  required", not a not-found failure that names the role. The guard on the two names
  comes first.
\<close>

theorem dispatch_empty_name_counterexample:
  "map (toLowerCase ascii_runtime) (map r_name (roles loaded)) = [''editor'', ''viewer'']
   \<and> toLowerCase ascii_runtime [] = []
   \<and> executeAction ascii_runtime store_ok (link_action ''assign_permission'' [] ''can_delete'')
       loaded =
       (\<lparr>success = False, message = ''Both role name and permission name are required''\<rparr>,
        loaded)
   \<and> ''Both role name and permission name are required'' \<noteq> ''Role '' @ quoted [] @ '' not found''"
proof -
  have "map (toLowerCase ascii_runtime) (map r_name (roles loaded)) = [''editor'', ''viewer'']"
    by (simp add: ascii_runtime_def ascii_lower_def sample_defs char_of_def bit_Suc_0_iff)
  moreover have "toLowerCase ascii_runtime [] = []"
    by (simp add: ascii_runtime_def)
  moreover have "executeAction ascii_runtime store_ok
      (link_action ''assign_permission'' [] ''can_delete'') loaded =
       (\<lparr>success = False, message = ''Both role name and permission name are required''\<rparr>,
        loaded)"
    by (simp add: executeAction_assign_permission link_action_fields failure_def)
  moreover have
    "''Both role name and permission name are required'' \<noteq> ''Role '' @ quoted [] @ '' not found''"
    by (simp add: quoted_def)
  ultimately show ?thesis by blast
qed

text \<open>
  C9, amended. For an \<open>assign_permission\<close> or \<open>remove_permission\<close> action: when the
  role name or the permission name is absent or empty, the dispatcher fails with "Both
  role name and permission name are required". Otherwise the names are resolved against
  the mirror by equality of the lower-cased names: when no role matches, the result is
  the failure \<open>Role "X" not found\<close>; when a role matches and no permission does,
  \<open>Permission "Y" not found\<close>; in all three cases the state is untouched, so no call is
  issued. When both match, exactly one call is issued, the insert or the delete of the
  pair of ids of the first matching role and the first matching permission.
\<close>

theorem dispatch_resolves_names:
  assumes "ai_action response = ''assign_permission'' \<or> ai_action response = ''remove_permission''"
  shows "(truthy_field role_name (ai_data response) = None
          \<or> truthy_field permission_name (ai_data response) = None \<longrightarrow>
          executeAction rt sb response w =
            (\<lparr>success = False,
               message = ''Both role name and permission name are required''\<rparr>, w))
   \<and> (\<forall>rname pname.
         truthy_field role_name (ai_data response) = Some rname
         \<and> truthy_field permission_name (ai_data response) = Some pname \<longrightarrow>
         (\<not> (\<exists>r\<in>set (roles w). toLowerCase rt (r_name r) = toLowerCase rt rname) \<longrightarrow>
            executeAction rt sb response w =
              (\<lparr>success = False, message = ''Role '' @ quoted rname @ '' not found''\<rparr>, w))
         \<and> ((\<exists>r\<in>set (roles w). toLowerCase rt (r_name r) = toLowerCase rt rname)
            \<and> \<not> (\<exists>p\<in>set (permissions w). toLowerCase rt (p_name p) = toLowerCase rt pname) \<longrightarrow>
            executeAction rt sb response w =
              (\<lparr>success = False, message = ''Permission '' @ quoted pname @ '' not found''\<rparr>,
               w))
         \<and> (\<forall>r p.
              find (\<lambda>r. toLowerCase rt (r_name r) = toLowerCase rt rname) (roles w) = Some r
              \<and> find (\<lambda>p. toLowerCase rt (p_name p) = toLowerCase rt pname) (permissions w)
                  = Some p \<longrightarrow>
              requests (snd (executeAction rt sb response w)) =
                requests w @
                [if ai_action response = ''assign_permission''
                 then Insert_role_permission (r_id r) (p_id p)
                 else Delete_role_permission (r_id r) (p_id p)]))"
proof (intro conjI allI impI)
  assume "truthy_field role_name (ai_data response) = None
          \<or> truthy_field permission_name (ai_data response) = None"
  then show "executeAction rt sb response w =
            (\<lparr>success = False,
               message = ''Both role name and permission name are required''\<rparr>, w)"
    using assms
    by (auto simp: executeAction_assign_permission executeAction_remove_permission failure_def
        split: option.splits)
next
  fix rname pname
  assume names: "truthy_field role_name (ai_data response) = Some rname
         \<and> truthy_field permission_name (ai_data response) = Some pname"
  assume "\<not> (\<exists>r\<in>set (roles w). toLowerCase rt (r_name r) = toLowerCase rt rname)"
  then have "find (\<lambda>r. toLowerCase rt (r_name r) = toLowerCase rt rname) (roles w) = None"
    by (simp add: find_None_iff)
  with names show "executeAction rt sb response w =
              (\<lparr>success = False, message = ''Role '' @ quoted rname @ '' not found''\<rparr>, w)"
    using assms
    by (auto simp: executeAction_assign_permission executeAction_remove_permission failure_def)
next
  fix rname pname
  assume names: "truthy_field role_name (ai_data response) = Some rname
         \<and> truthy_field permission_name (ai_data response) = Some pname"
  assume a: "(\<exists>r\<in>set (roles w). toLowerCase rt (r_name r) = toLowerCase rt rname)
            \<and> \<not> (\<exists>p\<in>set (permissions w). toLowerCase rt (p_name p) = toLowerCase rt pname)"
  then obtain r where
    "find (\<lambda>r. toLowerCase rt (r_name r) = toLowerCase rt rname) (roles w) = Some r"
    by (cases "find (\<lambda>r. toLowerCase rt (r_name r) = toLowerCase rt rname) (roles w)")
      (auto simp: find_None_iff)
  moreover from a
  have "find (\<lambda>p. toLowerCase rt (p_name p) = toLowerCase rt pname) (permissions w) = None"
    by (simp add: find_None_iff)
  ultimately show "executeAction rt sb response w =
              (\<lparr>success = False, message = ''Permission '' @ quoted pname @ '' not found''\<rparr>,
               w)"
    using assms names
    by (auto simp: executeAction_assign_permission executeAction_remove_permission failure_def)
next
  fix rname pname r p
  assume names: "truthy_field role_name (ai_data response) = Some rname
         \<and> truthy_field permission_name (ai_data response) = Some pname"
  assume found: "find (\<lambda>r. toLowerCase rt (r_name r) = toLowerCase rt rname) (roles w) = Some r
      \<and> find (\<lambda>p. toLowerCase rt (p_name p) = toLowerCase rt pname) (permissions w) = Some p"
  from assms show "requests (snd (executeAction rt sb response w)) =
                requests w @
                [if ai_action response = ''assign_permission''
                 then Insert_role_permission (r_id r) (p_id p)
                 else Delete_role_permission (r_id r) (p_id p)]"
  proof
    assume "ai_action response = ''assign_permission''"
    with names found show ?thesis
      by (simp add: executeAction_assign_found requests_after)
  next
    assume "ai_action response = ''remove_permission''"
    with names found show ?thesis
      by (simp add: executeAction_remove_found requests_after)
  qed
qed


theorem dispatch_resolves_names_witness:
  "ai_action (link_action ''assign_permission'' ''Manager'' ''can_delete'') = ''assign_permission''
   \<and> truthy_field role_name (ai_data (link_action ''assign_permission'' ''Manager'' ''can_delete''))
       = Some ''Manager''
   \<and> \<not> (\<exists>r\<in>set (roles loaded).
          toLowerCase ascii_runtime (r_name r) = toLowerCase ascii_runtime ''Manager'')
   \<and> executeAction ascii_runtime store_ok
       (link_action ''assign_permission'' ''Manager'' ''can_delete'') loaded =
       (\<lparr>success = False, message = ''Role '' @ quoted ''Manager'' @ '' not found''\<rparr>, loaded)
   \<and> requests (snd (executeAction ascii_runtime store_ok
       (link_action ''remove_permission'' ''VIEWER'' ''Can_Delete'') loaded)) =
       [Delete_role_permission ''r2'' ''p1'']"
proof -
  let ?a = "link_action ''assign_permission'' ''Manager'' ''can_delete''"
  let ?b = "link_action ''remove_permission'' ''VIEWER'' ''Can_Delete''"
  have a: "ai_action ?a = ''assign_permission''"
    "truthy_field role_name (ai_data ?a) = Some ''Manager''"
    "truthy_field permission_name (ai_data ?a) = Some ''can_delete''"
    by (simp_all add: link_action_fields)
  have b: "ai_action ?b = ''remove_permission''"
    "truthy_field role_name (ai_data ?b) = Some ''VIEWER''"
    "truthy_field permission_name (ai_data ?b) = Some ''Can_Delete''"
    by (simp_all add: link_action_fields)
  have missing: "\<not> (\<exists>r\<in>set (roles loaded).
      toLowerCase ascii_runtime (r_name r) = toLowerCase ascii_runtime ''Manager'')"
    using lower_samples(3) by (simp add: find_None_iff)
  have ids: "r_id role_viewer = ''r2''" "p_id perm_delete = ''p1''" "requests loaded = []"
    by (simp_all add: sample_defs)
  have ha: "ai_action ?a = ''assign_permission'' \<or> ai_action ?a = ''remove_permission''"
    using a(1) by simp
  have hb: "ai_action ?b = ''assign_permission'' \<or> ai_action ?b = ''remove_permission''"
    using b(1) by simp
  from dispatch_resolves_names [OF ha, of ascii_runtime store_ok loaded] a missing
  have c: "executeAction ascii_runtime store_ok ?a loaded =
       (\<lparr>success = False, message = ''Role '' @ quoted ''Manager'' @ '' not found''\<rparr>, loaded)"
    by blast
  from dispatch_resolves_names [OF hb, of ascii_runtime store_ok loaded] b lower_samples(1,2)
  have "requests (snd (executeAction ascii_runtime store_ok ?b loaded)) =
      requests loaded @
        [if ai_action ?b = ''assign_permission''
         then Insert_role_permission (r_id role_viewer) (p_id perm_delete)
         else Delete_role_permission (r_id role_viewer) (p_id perm_delete)]"
    by blast
  with b(1) ids have d: "requests (snd (executeAction ascii_runtime store_ok ?b loaded)) =
       [Delete_role_permission ''r2'' ''p1'']"
    by simp
  from a(1,2) missing c d show ?thesis by blast
qed

end
